theory Spec2Isabelle
  imports Complex_Main
begin

section \<open>Data model\<close>

text \<open>
  The alert engine of the shipment tracker (\<^verbatim>\<open>src/services/alertService.js\<close> and the second
  \<^verbatim>\<open>useAlerts\<close> hook of \<^verbatim>\<open>src/hooks/useAlerts.js\<close>) is embedded as pure functions.

  \<^item> Times are milliseconds since the epoch, as \<^verbatim>\<open>Date\<close> holds them: an \<open>int\<close>.  One
    call of a function reads the wall clock several times (\<^verbatim>\<open>new Date()\<close>,
    \<^verbatim>\<open>Date.now()\<close>); the embedding takes the call as instantaneous and passes one
    reading \<open>now\<close> to every place that reads the clock.
  \<^item> JavaScript strings are \<open>string\<close>; status, carrier, type, priority and title stay
    strings, compared with \<open>=\<close> as \<^verbatim>\<open>===\<close> compares them.
  \<^item> A property that may be absent (\<^verbatim>\<open>undefined\<close>) is an \<open>option\<close>: \<open>None = None\<close> is
    \<^verbatim>\<open>undefined === undefined\<close>.
  \<^item> \<^verbatim>\<open>Math.random().toString(36).substr(2, 5)\<close> is an input: \<open>rnd i\<close> is the suffix
    that the \<open>i\<close>-th call of \<^verbatim>\<open>createAlert\<close> draws.
  \<^item> The icons are emoji in the source; here each is named in ASCII.
\<close>

record historicalStatus =
  h_status :: string
  h_timestamp :: int
  h_location :: "string option"

record shipment =
  shipmentId :: "string option"
  trackingNumber :: string
  carrier :: string
  nickname :: string
  status :: string
  estimatedDelivery :: "int option"
  actualDelivery :: "int option"
  lastUpdated :: int
  historicalStatuses :: "historicalStatus list"

record alertType =
  t_type :: string
  t_priority :: string
  t_title :: string
  t_icon :: string

record metadata =
  md_carrier :: string
  md_status :: string
  md_pattern :: "string option"

text \<open>
  An alert object.  \<^verbatim>\<open>createAlert\<close> writes neither \<^verbatim>\<open>read\<close>, \<^verbatim>\<open>readAt\<close> nor
  \<^verbatim>\<open>dismissedAt\<close>; the hook adds them later, so they are optional here.
\<close>

record alert =
  alert_id :: string
  type :: string
  priority :: string
  title :: string
  message :: string
  icon :: string
  timestamp :: int
  alert_shipmentId :: "string option"
  alert_trackingNumber :: string
  dismissed :: bool
  metadata :: metadata
  dismissedAt :: "int option"
  read :: "bool option"
  readAt :: "int option"

record preferences =
  emailNotifications :: bool
  delayAlerts :: bool
  deliveryAlerts :: bool
  weeklyDigest :: bool

section \<open>Strings and numbers of the host language\<close>

definition upperToLower :: "(char \<times> char) list" where
  "upperToLower = zip ''ABCDEFGHIJKLMNOPQRSTUVWXYZ'' ''abcdefghijklmnopqrstuvwxyz''"

definition toLowerChar :: "char \<Rightarrow> char" where
  "toLowerChar c = (case map_of upperToLower c of None \<Rightarrow> c | Some l \<Rightarrow> l)"

text \<open>\<^verbatim>\<open>String.prototype.toLowerCase\<close> on the ASCII letters; other characters stay.\<close>

definition toLowerCase :: "string \<Rightarrow> string" where
  "toLowerCase s = map toLowerChar s"

primrec startsWith :: "string \<Rightarrow> string \<Rightarrow> bool" where
  "startsWith s [] = True"
| "startsWith s (c # cs) = (case s of [] \<Rightarrow> False | d # ds \<Rightarrow> d = c \<and> startsWith ds cs)"

text \<open>\<^verbatim>\<open>String.prototype.includes\<close>: the needle occurs at some position of the text.\<close>

primrec includes_str :: "string \<Rightarrow> string \<Rightarrow> bool" where
  "includes_str [] needle = (needle = [])"
| "includes_str (c # cs) needle = (startsWith (c # cs) needle \<or> includes_str cs needle)"

fun digits :: "nat \<Rightarrow> string" where
  "digits n = (if n < 10 then [''0123456789'' ! n]
               else digits (n div 10) @ [''0123456789'' ! (n mod 10)])"

declare digits.simps [simp del]

text \<open>The decimal text of an integral number, as a template literal prints it.\<close>

definition toString :: "int \<Rightarrow> string" where
  "toString n = (if n < 0 then ''-'' @ digits (nat (- n)) else digits (nat n))"

definition msPerHour :: int where
  "msPerHour = 1000 * 60 * 60"

definition msPerDay :: int where
  "msPerDay = 1000 * 60 * 60 * 24"

section \<open>Alert rule engine\<close>

definition DELAY_DETECTED :: alertType where
  "DELAY_DETECTED = \<lparr>t_type = ''warning'', t_priority = ''high'',
     t_title = ''Shipment Delayed'', t_icon = ''warning sign''\<rparr>"

definition DELIVERY_SOON :: alertType where
  "DELIVERY_SOON = \<lparr>t_type = ''info'', t_priority = ''medium'',
     t_title = ''Delivery Today'', t_icon = ''package''\<rparr>"

definition DELIVERED :: alertType where
  "DELIVERED = \<lparr>t_type = ''success'', t_priority = ''medium'',
     t_title = ''Package Delivered'', t_icon = ''check mark''\<rparr>"

definition EXCEPTION :: alertType where
  "EXCEPTION = \<lparr>t_type = ''error'', t_priority = ''high'',
     t_title = ''Delivery Exception'', t_icon = ''cross mark''\<rparr>"

definition WEATHER_DELAY :: alertType where
  "WEATHER_DELAY = \<lparr>t_type = ''warning'', t_priority = ''medium'',
     t_title = ''Weather Delay'', t_icon = ''rain cloud''\<rparr>"

definition CUSTOMS_DELAY :: alertType where
  "CUSTOMS_DELAY = \<lparr>t_type = ''warning'', t_priority = ''medium'',
     t_title = ''Customs Processing'', t_icon = ''customs''\<rparr>"

definition ADDRESS_ISSUE :: alertType where
  "ADDRESS_ISSUE = \<lparr>t_type = ''error'', t_priority = ''high'',
     t_title = ''Address Problem'', t_icon = ''house''\<rparr>"

text \<open>
  \<^verbatim>\<open>createAlert(alertType, message, shipment, metadata = {})\<close>.  The extra metadata that
  the callers pass is nothing or a \<^verbatim>\<open>pattern\<close> tag.  \<open>r\<close> is the random suffix of the id.
\<close>

definition createAlert ::
  "int \<Rightarrow> string \<Rightarrow> alertType \<Rightarrow> string \<Rightarrow> shipment \<Rightarrow> string option \<Rightarrow> alert" where
  "createAlert now r alertType msg shipment pat =
     \<lparr>alert_id = ''alert_'' @ toString now @ ''_'' @ r,
      type = t_type alertType,
      priority = t_priority alertType,
      title = t_title alertType,
      message = msg,
      icon = t_icon alertType,
      timestamp = now,
      alert_shipmentId = shipmentId shipment,
      alert_trackingNumber = trackingNumber shipment,
      dismissed = False,
      metadata = \<lparr>md_carrier = carrier shipment, md_status = status shipment,
                    md_pattern = pat\<rparr>,
      dismissedAt = None,
      read = None,
      readAt = None\<rparr>"

text \<open>
  \<^verbatim>\<open>latestStatus?.location?.toLowerCase().includes(w)\<close> on the last entry of the
  history: false when there is no entry or the entry has no location.
\<close>

definition latestLocationIncludes :: "shipment \<Rightarrow> string \<Rightarrow> bool" where
  "latestLocationIncludes shipment w =
     (case historicalStatuses shipment of
        [] \<Rightarrow> False
      | h # hs \<Rightarrow> (case h_location (last (h # hs)) of
                     None \<Rightarrow> False
                   | Some loc \<Rightarrow> includes_str (toLowerCase loc) w))"

definition getDelayReason :: "shipment \<Rightarrow> string" where
  "getDelayReason shipment =
     (if latestLocationIncludes shipment ''weather'' then ''Weather conditions causing delays''
      else if latestLocationIncludes shipment ''customs'' then ''Customs processing delay''
      else if latestLocationIncludes shipment ''address'' then ''Address verification required''
      else ''Unexpected delay in transit'')"

definition getDelayAlertType :: "string \<Rightarrow> alertType" where
  "getDelayAlertType reason =
     (if includes_str (toLowerCase reason) ''weather'' then WEATHER_DELAY
      else if includes_str (toLowerCase reason) ''customs'' then CUSTOMS_DELAY
      else if includes_str (toLowerCase reason) ''address'' then ADDRESS_ISSUE
      else DELAY_DETECTED)"

text \<open>\<^verbatim>\<open>Math.ceil(diffTime / (1000 * 60 * 60 * 24))\<close>.\<close>

definition getDaysOverdue :: "int \<Rightarrow> int \<Rightarrow> int" where
  "getDaysOverdue now estimated = \<lceil>real_of_int (now - estimated) / real_of_int msPerDay\<rceil>"

text \<open>\<^verbatim>\<open>Math.floor((now - lastUpdate) / (1000 * 60 * 60))\<close>.\<close>

definition getHoursSinceUpdate :: "int \<Rightarrow> shipment \<Rightarrow> int" where
  "getHoursSinceUpdate now shipment =
     \<lfloor>real_of_int (now - lastUpdated shipment) / real_of_int msPerHour\<rfloor>"

definition isShipmentStuck :: "int \<Rightarrow> shipment \<Rightarrow> bool" where
  "isShipmentStuck now shipment =
     (if status shipment = ''delivered'' then False
      else getHoursSinceUpdate now shipment > 48 \<and>
           status shipment \<in> set [''in_transit'', ''pending''])"

definition hasUnusualRouting :: "shipment \<Rightarrow> bool" where
  "hasUnusualRouting shipment =
     (if length (historicalStatuses shipment) < 3 then False
      else (let locations = map h_location (historicalStatuses shipment);
                uniqueLocations = remdups locations
            in length locations > length uniqueLocations + 1))"

text \<open>
  \<^verbatim>\<open>detectCarrierIssues\<close>.  With an empty history the first timestamp is
  \<^verbatim>\<open>undefined\<close>, the day count is \<^verbatim>\<open>NaN\<close> and \<^verbatim>\<open>NaN > 5\<close> is false.
\<close>

definition detectCarrierIssues :: "int \<Rightarrow> shipment \<Rightarrow> string option" where
  "detectCarrierIssues now shipment =
     (if carrier shipment = ''usps'' \<and> getHoursSinceUpdate now shipment > 72
      then Some ''USPS packages often experience delays during peak seasons''
      else if carrier shipment = ''fedex'' \<and> status shipment = ''in_transit'' \<and>
              (case historicalStatuses shipment of
                 [] \<Rightarrow> False
               | h # hs \<Rightarrow> \<lfloor>real_of_int (now - h_timestamp h) / real_of_int msPerDay\<rfloor> > 5)
      then Some ''FedEx shipment has been in transit longer than typical''
      else None)"

definition detectAdvancedPatterns :: "int \<Rightarrow> (nat \<Rightarrow> string) \<Rightarrow> shipment \<Rightarrow> alert list" where
  "detectAdvancedPatterns now rnd shipment =
     (let alerts0 = [];
          alerts1 = (if hasUnusualRouting shipment
                     then alerts0 @ [createAlert now (rnd (length alerts0)) EXCEPTION
                            (nickname shipment @
                             '' is taking an unusual route - may indicate processing issues'')
                            shipment (Some ''unusual_routing'')]
                     else alerts0);
          alerts2 = (case detectCarrierIssues now shipment of
                       None \<Rightarrow> alerts1
                     | Some carrierIssues \<Rightarrow>
                         alerts1 @ [createAlert now (rnd (length alerts1)) DELAY_DETECTED
                            (nickname shipment @ '': '' @ carrierIssues)
                            shipment (Some ''carrier_issue'')])
      in alerts2)"

text \<open>
  \<^verbatim>\<open>analyzeShipmentForAlerts(shipment, previousStatus = null)\<close>, the spec's
  \<^verbatim>\<open>deriveAlerts\<close>.  \<open>premium\<close> is what \<^verbatim>\<open>hasPremiumFeatures()\<close> returns.  Each
  \<^verbatim>\<open>alerts.push\<close> appends; the alert pushed when \<open>k\<close> alerts exist draws \<open>rnd k\<close>.
\<close>

definition analyzeShipmentForAlerts ::
  "bool \<Rightarrow> int \<Rightarrow> (nat \<Rightarrow> string) \<Rightarrow> shipment \<Rightarrow> string option \<Rightarrow> alert list" where
  "analyzeShipmentForAlerts premium now rnd shipment previousStatus =
     (let alerts0 = [];
          alerts1 =
            (case estimatedDelivery shipment of
               None \<Rightarrow> alerts0
             | Some est \<Rightarrow>
                 if now > est \<and> status shipment \<noteq> ''delivered'' \<and> status shipment \<noteq> ''delayed''
                 then alerts0 @ [createAlert now (rnd (length alerts0)) DELAY_DETECTED
                        (nickname shipment @ '' is '' @ toString (getDaysOverdue now est) @
                         '' day(s) overdue'')
                        shipment None]
                 else alerts0);
          alerts2 =
            (if status shipment = ''delayed''
             then (let delayReason = getDelayReason shipment;
                       alertType = getDelayAlertType delayReason
                   in alerts1 @ [createAlert now (rnd (length alerts1)) alertType
                        (nickname shipment @ '': '' @ delayReason) shipment None])
             else alerts1);
          alerts3 =
            (if status shipment = ''out_for_delivery''
             then alerts2 @ [createAlert now (rnd (length alerts2)) DELIVERY_SOON
                    (nickname shipment @ '' is out for delivery and should arrive today'')
                    shipment None]
             else alerts2);
          alerts4 =
            (if status shipment = ''delivered'' \<and> previousStatus \<noteq> Some ''delivered''
             then alerts3 @ [createAlert now (rnd (length alerts3)) DELIVERED
                    (nickname shipment @ '' has been successfully delivered'') shipment None]
             else alerts3);
          alerts5 =
            (if isShipmentStuck now shipment
             then alerts4 @ [createAlert now (rnd (length alerts4)) EXCEPTION
                    (nickname shipment @ '' hasn't been updated in '' @
                     toString (getHoursSinceUpdate now shipment) @ '' hours'') shipment None]
             else alerts4);
          alerts6 =
            (if premium
             then alerts5 @ detectAdvancedPatterns now (\<lambda>i. rnd (length alerts5 + i)) shipment
             else alerts5)
      in alerts6)"

section \<open>Alert lifecycle\<close>

definition deduplicateAlerts :: "alert list \<Rightarrow> alert list \<Rightarrow> alert list" where
  "deduplicateAlerts newAlerts existingAlerts =
     filter (\<lambda>newAlert.
        \<not> list_ex (\<lambda>existing.
             alert_shipmentId existing = alert_shipmentId newAlert \<and>
             type existing = type newAlert \<and>
             title existing = title newAlert \<and>
             \<not> dismissed existing) existingAlerts) newAlerts"

definition alertAge :: "int \<Rightarrow> alert \<Rightarrow> real" where
  "alertAge now a = real_of_int (now - timestamp a) / real_of_int msPerDay"

definition keepAlert :: "int \<Rightarrow> shipment list \<Rightarrow> alert \<Rightarrow> bool" where
  "keepAlert now shipments a =
     (case find (\<lambda>s. shipmentId s = alert_shipmentId a) shipments of
        None \<Rightarrow> False
      | Some shipment \<Rightarrow>
          if title a = ''Delivery Today'' \<and> status shipment \<noteq> ''out_for_delivery'' then False
          else if type a = ''warning'' \<and> status shipment = ''delivered'' then False
          else if alertAge now a > 7 then False
          else True)"

definition cleanupOutdatedAlerts :: "int \<Rightarrow> alert list \<Rightarrow> shipment list \<Rightarrow> alert list" where
  "cleanupOutdatedAlerts now alerts shipments = filter (keepAlert now shipments) alerts"


subsection \<open>Notification\<close>

record alertPayload =
  p_trackingNumber :: string
  p_status :: string
  p_message :: string
  p_title :: string

datatype emailData = AlertData alertPayload | DigestData "alert list" nat

record email =
  e_to :: string
  e_kind :: string
  e_data :: emailData

text \<open>
  \<^verbatim>\<open>sendNotificationEmail\<close> is the mock of the API layer: it waits, logs the mail and
  returns success.  The mails sent are kept as a list, oldest first.
\<close>

definition sendNotificationEmail :: "string \<Rightarrow> string \<Rightarrow> emailData \<Rightarrow> email list \<Rightarrow> email list" where
  "sendNotificationEmail userEmail notificationType d sent =
     sent @ [\<lparr>e_to = userEmail, e_kind = notificationType, e_data = d\<rparr>]"

definition preferenceFilter :: "preferences \<Rightarrow> alert \<Rightarrow> bool" where
  "preferenceFilter prefs a =
     (if type a = ''warning'' \<and> \<not> delayAlerts prefs then False
      else if type a = ''success'' \<and> \<not> deliveryAlerts prefs then False
      else True)"

definition alertPayloadOf :: "alert \<Rightarrow> alertPayload" where
  "alertPayloadOf a =
     \<lparr>p_trackingNumber = alert_trackingNumber a, p_status = md_status (metadata a),
      p_message = message a, p_title = title a\<rparr>"

text \<open>
  \<^verbatim>\<open>processAlertNotifications(alerts, userEmail)\<close>; \<open>prefs\<close> is what
  \<^verbatim>\<open>getUserPreferences()\<close> returns.  The \<^verbatim>\<open>for\<close> loop over the high-priority alerts is
  the \<open>fold\<close>.
\<close>

definition processAlertNotifications ::
  "preferences \<Rightarrow> alert list \<Rightarrow> string \<Rightarrow> email list \<Rightarrow> email list" where
  "processAlertNotifications prefs alerts userEmail sent =
     (if length alerts = 0 then sent
      else if \<not> emailNotifications prefs then sent
      else (let filteredAlerts = filter (preferenceFilter prefs) alerts;
                highPriorityAlerts = filter (\<lambda>a. priority a = ''high'') filteredAlerts;
                sent1 = fold (\<lambda>a acc. sendNotificationEmail userEmail ''alert''
                                 (AlertData (alertPayloadOf a)) acc) highPriorityAlerts sent;
                otherAlerts = filter (\<lambda>a. priority a \<noteq> ''high'') filteredAlerts
            in if length otherAlerts > 0
               then sendNotificationEmail userEmail ''digest''
                      (DigestData otherAlerts (length otherAlerts)) sent1
               else sent1))"

subsection \<open>The hook\<close>

text \<open>
  The state of \<^verbatim>\<open>useAlerts\<close>: the two React states, what \<^verbatim>\<open>alertStorage\<close> holds
  (\<^verbatim>\<open>save\<close> overwrites it, \<^verbatim>\<open>load\<close> reads it) and the mails sent so far.
\<close>

record hookState =
  alerts :: "alert list"
  previousShipments :: "shipment list"
  stored :: "alert list"
  sent :: "email list"

text \<open>
  The \<^verbatim>\<open>forEach\<close> over the shipments: \<open>acc\<close> is \<^verbatim>\<open>newAlerts\<close>, and the previous
  status is \<^verbatim>\<open>previousShipment?.status\<close>.
\<close>

fun collectAlerts ::
  "bool \<Rightarrow> int \<Rightarrow> (nat \<Rightarrow> string) \<Rightarrow> shipment list \<Rightarrow> shipment list \<Rightarrow> alert list \<Rightarrow> alert list" where
  "collectAlerts premium now rnd prev [] acc = acc"
| "collectAlerts premium now rnd prev (s # ss) acc =
     collectAlerts premium now rnd prev ss
       (acc @ analyzeShipmentForAlerts premium now (\<lambda>i. rnd (length acc + i)) s
                (map_option status (find (\<lambda>p. shipmentId p = shipmentId s) prev)))"

text \<open>
  One run of the effect that generates alerts when the shipment collection changes:
  the spec's per-cycle algorithm.
\<close>

definition generateAlerts ::
  "bool \<Rightarrow> preferences \<Rightarrow> int \<Rightarrow> (nat \<Rightarrow> string) \<Rightarrow> shipment list \<Rightarrow> hookState \<Rightarrow> hookState" where
  "generateAlerts premium prefs now rnd shipments st =
     (if length shipments = 0 then st
      else (let newAlerts = collectAlerts premium now rnd (previousShipments st) shipments [];
                st1 = (if length newAlerts > 0
                       then (let prevAlerts = alerts st;
                                 uniqueNewAlerts = deduplicateAlerts newAlerts prevAlerts
                             in if length uniqueNewAlerts = 0 then st
                                else (let updatedAlerts = uniqueNewAlerts @ prevAlerts;
                                          cleanedAlerts =
                                            cleanupOutdatedAlerts now updatedAlerts shipments
                                      in st\<lparr>alerts := cleanedAlerts,
                                            stored := cleanedAlerts,
                                            sent := processAlertNotifications prefs
                                              uniqueNewAlerts ''user@example.com'' (sent st)\<rparr>))
                       else st)
            in st1\<lparr>previousShipments := shipments\<rparr>))"

text \<open>The effect that loads the saved alerts when the hook starts.\<close>

definition loadAlerts :: "int \<Rightarrow> shipment list \<Rightarrow> hookState \<Rightarrow> hookState" where
  "loadAlerts now shipments st =
     (let savedAlerts = stored st;
          cleanedAlerts = cleanupOutdatedAlerts now savedAlerts shipments
      in st\<lparr>alerts := cleanedAlerts,
            stored := (if length cleanedAlerts \<noteq> length savedAlerts then cleanedAlerts
                       else stored st)\<rparr>)"

text \<open>
  \<^verbatim>\<open>dismissAlert(alertId)\<close>: the marked list goes to the storage, the state keeps the
  alerts that are not dismissed.  \<^verbatim>\<open>new Date().toISOString()\<close> is the reading \<open>now\<close>.
\<close>

definition dismissAlert :: "int \<Rightarrow> string \<Rightarrow> hookState \<Rightarrow> hookState" where
  "dismissAlert now alertId st =
     (let updatedAlerts =
            map (\<lambda>a. if alert_id a = alertId
                      then a\<lparr>dismissed := True, dismissedAt := Some now\<rparr> else a) (alerts st)
      in st\<lparr>alerts := filter (\<lambda>a. \<not> dismissed a) updatedAlerts, stored := updatedAlerts\<rparr>)"

definition markAlertAsRead :: "int \<Rightarrow> string \<Rightarrow> hookState \<Rightarrow> hookState" where
  "markAlertAsRead now alertId st =
     (let updatedAlerts =
            map (\<lambda>a. if alert_id a = alertId
                      then a\<lparr>read := Some True, readAt := Some now\<rparr> else a) (alerts st)
      in st\<lparr>alerts := updatedAlerts, stored := updatedAlerts\<rparr>)"

definition clearAllAlerts :: "hookState \<Rightarrow> hookState" where
  "clearAllAlerts st = st\<lparr>alerts := [], stored := []\<rparr>"

text \<open>The alert list that the hook returns to the components.\<close>

definition visibleAlerts :: "hookState \<Rightarrow> alert list" where
  "visibleAlerts st = filter (\<lambda>a. \<not> dismissed a) (alerts st)"

subsection \<open>Auxiliary definitions for the statements\<close>

text \<open>
  The first rule of \<^verbatim>\<open>analyzeShipmentForAlerts\<close> on its own: the overdue check, as it
  runs on the empty \<^verbatim>\<open>alerts\<close> array.
\<close>

definition overdueAlerts :: "int \<Rightarrow> (nat \<Rightarrow> string) \<Rightarrow> shipment \<Rightarrow> alert list" where
  "overdueAlerts now rnd s =
     (case estimatedDelivery s of
        None \<Rightarrow> []
      | Some est \<Rightarrow>
          if now > est \<and> status s \<noteq> ''delivered'' \<and> status s \<noteq> ''delayed''
          then [createAlert now (rnd 0) DELAY_DETECTED
                 (nickname s @ '' is '' @ toString (getDaysOverdue now est) @ '' day(s) overdue'')
                 s None]
          else [])"

text \<open>A shipment and a random source for the concrete instances below.\<close>

definition sampleShipment :: shipment where
  "sampleShipment =
     \<lparr>shipmentId = Some ''s1'', trackingNumber = ''1Z999AA10123456784'', carrier = ''ups'',
      nickname = ''Books'', status = ''pending'', estimatedDelivery = None,
      actualDelivery = None, lastUpdated = 0, historicalStatuses = []\<rparr>"

definition sampleRnd :: "nat \<Rightarrow> string" where
  "sampleRnd i = ''k3x'' @ digits i"

definition delayedShipment :: "string \<Rightarrow> shipment" where
  "delayedShipment loc =
     sampleShipment\<lparr>status := ''delayed'',
       historicalStatuses :=
         [\<lparr>h_status = ''in_transit'', h_timestamp = 0,
            h_location = Some ''Distribution Center 1''\<rparr>,
          \<lparr>h_status = ''delayed'', h_timestamp = 0, h_location = Some loc\<rparr>]\<rparr>"

definition uspsShipment :: shipment where
  "uspsShipment = sampleShipment\<lparr>carrier := ''usps'', status := ''in_transit'',
                     estimatedDelivery := Some 0\<rparr>"

text \<open>The state of the hook before anything happened, and the preferences that
  \<^verbatim>\<open>getUserPreferences\<close> returns when none are stored.\<close>

definition emptyState :: hookState where
  "emptyState = \<lparr>alerts = [], previousShipments = [], stored = [], sent = []\<rparr>"

definition defaultPreferences :: preferences where
  "defaultPreferences = \<lparr>emailNotifications = True, delayAlerts = True,
     deliveryAlerts = True, weeklyDigest = False\<rparr>"

text \<open>The dedup key of an alert.\<close>

definition dedupKey :: "alert \<Rightarrow> string option \<times> string \<times> string" where
  "dedupKey a = (alert_shipmentId a, type a, title a)"

definition noIdShipment :: shipment where
  "noIdShipment = sampleShipment\<lparr>shipmentId := None, status := ''out_for_delivery''\<rparr>"

definition ofdShipment :: shipment where
  "ofdShipment = sampleShipment\<lparr>status := ''out_for_delivery''\<rparr>"

definition ofdAlert :: "int \<Rightarrow> alert" where
  "ofdAlert now = createAlert now (sampleRnd 0) DELIVERY_SOON
     ''Books is out for delivery and should arrive today'' ofdShipment None"

definition deliveredAlert :: alert where
  "deliveredAlert = createAlert 1000000000 (sampleRnd 4) DELIVERED
     ''Books has been successfully delivered'' (sampleShipment\<lparr>status := ''delivered''\<rparr>) None"

section \<open>Properties\<close>

lemmas ALERT_TYPES = DELAY_DETECTED_def DELIVERY_SOON_def DELIVERED_def EXCEPTION_def
  WEATHER_DELAY_def CUSTOMS_DELAY_def ADDRESS_ISSUE_def

subsection \<open>Numbers and strings\<close>

lemma getHoursSinceUpdate_div:
  "getHoursSinceUpdate now s = (now - lastUpdated s) div msPerHour"
  unfolding getHoursSinceUpdate_def by (rule floor_divide_of_int_eq)

lemma getDaysOverdue_div:
  "getDaysOverdue now est = - ((est - now) div msPerDay)"
proof -
  have "real_of_int (now - est) / real_of_int msPerDay
      = (- real_of_int (est - now)) / real_of_int msPerDay"
    by simp
  also have "\<dots> = - (real_of_int (est - now) / real_of_int msPerDay)"
    by (rule minus_divide_left [symmetric])
  finally have "real_of_int (now - est) / real_of_int msPerDay
      = - (real_of_int (est - now) / real_of_int msPerDay)" .
  then have "getDaysOverdue now est = \<lceil>- (real_of_int (est - now) / real_of_int msPerDay)\<rceil>"
    by (simp only: getDaysOverdue_def)
  also have "\<dots> = - \<lfloor>real_of_int (est - now) / real_of_int msPerDay\<rfloor>"
    by (rule ceiling_minus)
  also have "\<dots> = - ((est - now) div msPerDay)"
    by (simp only: floor_divide_of_int_eq)
  finally show ?thesis .
qed

lemma alertAge_gt: "(alertAge now a > 7) = (now - timestamp a > 7 * msPerDay)"
proof -
  have "(7 < real_of_int (now - timestamp a) / real_of_int msPerDay)
      = (7 * real_of_int msPerDay < real_of_int (now - timestamp a))"
    by (simp add: msPerDay_def field_simps)
  also have "\<dots> = (real_of_int (7 * msPerDay) < real_of_int (now - timestamp a))" by simp
  also have "\<dots> = (7 * msPerDay < now - timestamp a)" by (simp only: of_int_less_iff)
  finally show ?thesis by (simp add: alertAge_def)
qed

lemma days_one:
  assumes "est < now" "now - est \<le> msPerDay"
  shows "getDaysOverdue now est = 1"
proof -
  have "0 < real_of_int (now - est) / real_of_int msPerDay"
    using assms by (simp add: msPerDay_def)
  moreover have "real_of_int (now - est) / real_of_int msPerDay \<le> 1"
    using assms by (simp add: msPerDay_def)
  ultimately show ?thesis unfolding getDaysOverdue_def by (simp add: ceiling_eq_iff)
qed

lemma toString_1: "toString 1 = ''1''"
  by (simp add: toString_def digits.simps)

lemma digits_inj_small: "x < 10 \<Longrightarrow> y < 10 \<Longrightarrow> digits x = digits y \<Longrightarrow> x = y"
proof -
  assume x: "x < 10" and y: "y < 10" and e: "digits x = digits y"
  have d: "distinct ''0123456789''" by simp
  from x y e have "''0123456789'' ! x = ''0123456789'' ! y"
    by (simp add: digits.simps [of x] digits.simps [of y])
  with d x y show "x = y" by (simp add: nth_eq_iff_index_eq)
qed

lemma sampleRnd_inj_small: "n \<le> 10 \<Longrightarrow> inj_on sampleRnd {0..<n}"
  by (auto simp: inj_on_def sampleRnd_def intro: digits_inj_small)

lemma map_upt_add:
  "map f [0..<m + n] = map f [0..<m] @ map (\<lambda>i. f (m + i)) [0..<n]"
proof -
  have "[0..<m + n] = [0..<m] @ [m..<m + n]"
    by (rule upt_add_eq_append) simp
  moreover have "[m..<m + n] = map (\<lambda>i. m + i) [0..<n]"
    using map_add_upt [of m n] by (simp add: add.commute)
  ultimately have "map f [0..<m + n] = map f [0..<m] @ map f (map (\<lambda>i. m + i) [0..<n])"
    by (simp only: map_append)
  then show ?thesis by (simp only: map_map comp_def)
qed

lemma startsWith_self: "startsWith (n @ zs) n"
  by (induction n) simp_all

lemma includes_str_here: "includes_str (n @ zs) n"
  by (cases "n @ zs") (use startsWith_self [of n zs] in \<open>auto\<close>)

lemma includes_str_append: "includes_str ys n \<Longrightarrow> includes_str (xs @ ys) n"
proof (induction xs)
  case Nil then show ?case by simp
next
  case (Cons x xs)
  then show ?case by simp
qed

lemma includes_str_mid: "includes_str (xs @ n @ zs) n"
  by (rule includes_str_append) (rule includes_str_here)

lemma startsWith_iff: "startsWith t n \<longleftrightarrow> (\<exists>zs. t = n @ zs)"
proof (induction n arbitrary: t)
  case Nil
  then show ?case by simp
next
  case (Cons c cs)
  then show ?case by (cases t) auto
qed

lemma includes_str_iff: "includes_str t n \<longleftrightarrow> (\<exists>xs zs. t = xs @ n @ zs)"
proof (induction t)
  case Nil
  then show ?case by auto
next
  case (Cons c cs)
  have "(\<exists>xs zs. c # cs = xs @ n @ zs) \<longleftrightarrow>
        (\<exists>zs. c # cs = n @ zs) \<or> (\<exists>xs zs. cs = xs @ n @ zs)"
  proof
    assume "\<exists>xs zs. c # cs = xs @ n @ zs"
    then obtain xs zs where e: "c # cs = xs @ n @ zs" by blast
    show "(\<exists>zs. c # cs = n @ zs) \<or> (\<exists>xs zs. cs = xs @ n @ zs)"
    proof (cases xs)
      case Nil
      with e show ?thesis by auto
    next
      case (Cons x xs')
      with e have "cs = xs' @ n @ zs" by simp
      then show ?thesis by blast
    qed
  next
    assume "(\<exists>zs. c # cs = n @ zs) \<or> (\<exists>xs zs. cs = xs @ n @ zs)"
    then show "\<exists>xs zs. c # cs = xs @ n @ zs"
    proof
      assume "\<exists>zs. c # cs = n @ zs"
      then obtain zs where "c # cs = [] @ n @ zs" by auto
      then show ?thesis by blast
    next
      assume "\<exists>xs zs. cs = xs @ n @ zs"
      then obtain xs zs where "c # cs = (c # xs) @ n @ zs" by auto
      then show ?thesis by blast
    qed
  qed
  with Cons show ?case by (simp add: startsWith_iff)
qed

subsection \<open>The shape of the rule engine's result\<close>

lemma createAlert_sel:
  "alert_id (createAlert now r t m s p) = ''alert_'' @ toString now @ ''_'' @ r"
  "type (createAlert now r t m s p) = t_type t"
  "priority (createAlert now r t m s p) = t_priority t"
  "title (createAlert now r t m s p) = t_title t"
  "message (createAlert now r t m s p) = m"
  "icon (createAlert now r t m s p) = t_icon t"
  "timestamp (createAlert now r t m s p) = now"
  "alert_shipmentId (createAlert now r t m s p) = shipmentId s"
  "alert_trackingNumber (createAlert now r t m s p) = trackingNumber s"
  "dismissed (createAlert now r t m s p) = False"
  "metadata (createAlert now r t m s p) =
     \<lparr>md_carrier = carrier s, md_status = status s, md_pattern = p\<rparr>"
  "dismissedAt (createAlert now r t m s p) = None"
  "read (createAlert now r t m s p) = None"
  "readAt (createAlert now r t m s p) = None"
  by (simp_all add: createAlert_def)

lemma type_consts:
  "t_type DELAY_DETECTED = ''warning''" "t_type DELIVERY_SOON = ''info''"
  "t_type DELIVERED = ''success''" "t_type EXCEPTION = ''error''"
  "t_type WEATHER_DELAY = ''warning''" "t_type CUSTOMS_DELAY = ''warning''"
  "t_type ADDRESS_ISSUE = ''error''"
  by (simp_all add: ALERT_TYPES)

lemma priority_consts:
  "t_priority DELAY_DETECTED = ''high''" "t_priority DELIVERY_SOON = ''medium''"
  "t_priority DELIVERED = ''medium''" "t_priority EXCEPTION = ''high''"
  "t_priority WEATHER_DELAY = ''medium''" "t_priority CUSTOMS_DELAY = ''medium''"
  "t_priority ADDRESS_ISSUE = ''high''"
  by (simp_all add: ALERT_TYPES)

lemma title_consts:
  "t_title DELAY_DETECTED = ''Shipment Delayed''" "t_title DELIVERY_SOON = ''Delivery Today''"
  "t_title DELIVERED = ''Package Delivered''" "t_title EXCEPTION = ''Delivery Exception''"
  "t_title WEATHER_DELAY = ''Weather Delay''" "t_title CUSTOMS_DELAY = ''Customs Processing''"
  "t_title ADDRESS_ISSUE = ''Address Problem''"
  by (simp_all add: ALERT_TYPES)

lemma analyze_premium:
  "analyzeShipmentForAlerts premium now rnd s prev =
     (let base = analyzeShipmentForAlerts False now rnd s prev
      in if premium then base @ detectAdvancedPatterns now (\<lambda>i. rnd (length base + i)) s
         else base)"
  unfolding analyzeShipmentForAlerts_def Let_def by (cases premium) simp_all

lemma analyze_base:
  "analyzeShipmentForAlerts False now rnd s prev =
     (if status s = ''delayed''
      then [createAlert now (rnd 0) (getDelayAlertType (getDelayReason s))
              (nickname s @ '': '' @ getDelayReason s) s None]
      else if status s = ''delivered''
      then (if prev \<noteq> Some ''delivered''
            then [createAlert now (rnd 0) DELIVERED
                    (nickname s @ '' has been successfully delivered'') s None]
            else [])
      else overdueAlerts now rnd s @
           (if status s = ''out_for_delivery''
            then [createAlert now (rnd (length (overdueAlerts now rnd s))) DELIVERY_SOON
                    (nickname s @ '' is out for delivery and should arrive today'') s None]
            else if isShipmentStuck now s
            then [createAlert now (rnd (length (overdueAlerts now rnd s))) EXCEPTION
                    (nickname s @ '' hasn't been updated in '' @
                     toString (getHoursSinceUpdate now s) @ '' hours'') s None]
            else []))"
proof (cases "estimatedDelivery s")
  case None
  show ?thesis
  proof (cases "status s = ''delayed''")
    case True
    then show ?thesis using None
      by (simp add: analyzeShipmentForAlerts_def overdueAlerts_def isShipmentStuck_def Let_def)
  next
    case nd: False
    show ?thesis
    proof (cases "status s = ''delivered''")
      case True
      then show ?thesis using None
        by (simp add: analyzeShipmentForAlerts_def overdueAlerts_def isShipmentStuck_def)
    next
      case ndl: False
      show ?thesis
      proof (cases "status s = ''out_for_delivery''")
        case True
        then show ?thesis using None
          by (simp add: analyzeShipmentForAlerts_def overdueAlerts_def isShipmentStuck_def)
      next
        case False
        then show ?thesis using None nd ndl
          by (simp add: analyzeShipmentForAlerts_def overdueAlerts_def)
      qed
    qed
  qed
next
  case (Some est)
  show ?thesis
  proof (cases "status s = ''delayed''")
    case True
    then show ?thesis using Some
      by (simp add: analyzeShipmentForAlerts_def overdueAlerts_def isShipmentStuck_def Let_def)
  next
    case nd: False
    show ?thesis
    proof (cases "status s = ''delivered''")
      case True
      then show ?thesis using Some
        by (simp add: analyzeShipmentForAlerts_def overdueAlerts_def isShipmentStuck_def)
    next
      case ndl: False
      show ?thesis
      proof (cases "status s = ''out_for_delivery''")
        case True
        then show ?thesis using Some
          by (simp add: analyzeShipmentForAlerts_def overdueAlerts_def isShipmentStuck_def)
      next
        case False
        then show ?thesis using Some nd ndl
          by (simp add: analyzeShipmentForAlerts_def overdueAlerts_def)
      qed
    qed
  qed
qed

lemma base_subset:
  "set (analyzeShipmentForAlerts False now rnd s prev)
     \<subseteq> set (analyzeShipmentForAlerts premium now rnd s prev)"
  by (subst (2) analyze_premium) (simp add: Let_def)

lemma overdueAlerts_length: "length (overdueAlerts now rnd s) \<le> 1"
  by (simp add: overdueAlerts_def split: option.splits)

lemma overdueAlerts_cases:
  "overdueAlerts now rnd s = [] \<or>
   (\<exists>est. estimatedDelivery s = Some est \<and> est < now \<and>
      overdueAlerts now rnd s = [createAlert now (rnd 0) DELAY_DETECTED
        (nickname s @ '' is '' @ toString (getDaysOverdue now est) @ '' day(s) overdue'') s None])"
  by (simp add: overdueAlerts_def split: option.splits)

lemma overdueAlerts_fires:
  assumes "estimatedDelivery s = Some est" "est < now"
    "status s \<noteq> ''delivered''" "status s \<noteq> ''delayed''"
  shows "overdueAlerts now rnd s = [createAlert now (rnd 0) DELAY_DETECTED
           (nickname s @ '' is '' @ toString (getDaysOverdue now est) @ '' day(s) overdue'') s None]"
  using assms by (simp add: overdueAlerts_def)

lemma adv_types:
  "a \<in> set (detectAdvancedPatterns now rnd s) \<Longrightarrow> type a = ''error'' \<or> type a = ''warning''"
  by (auto simp: detectAdvancedPatterns_def Let_def createAlert_sel type_consts split: option.splits if_splits)

lemma delay_type_cases:
  "getDelayAlertType r \<in> {WEATHER_DELAY, CUSTOMS_DELAY, ADDRESS_ISSUE, DELAY_DETECTED}"
  by (simp add: getDelayAlertType_def)

lemma stuck_status:
  "isShipmentStuck now s \<Longrightarrow> status s = ''in_transit'' \<or> status s = ''pending''"
  by (simp add: isShipmentStuck_def split: if_splits)

lemma uspsShipment_alerts:
  "analyzeShipmentForAlerts True 1000000000 rnd uspsShipment prev =
     [createAlert 1000000000 (rnd 0) DELAY_DETECTED ''Books is 12 day(s) overdue''
        uspsShipment None,
      createAlert 1000000000 (rnd 1) EXCEPTION ''Books hasn't been updated in 277 hours''
        uspsShipment None,
      createAlert 1000000000 (rnd 2) DELAY_DETECTED
        ''Books: USPS packages often experience delays during peak seasons''
        uspsShipment (Some ''carrier_issue'')]"
  by (subst analyze_premium)
     (simp add: Let_def analyze_base overdueAlerts_def isShipmentStuck_def
        getHoursSinceUpdate_div getDaysOverdue_div msPerHour_def msPerDay_def
        detectAdvancedPatterns_def hasUnusualRouting_def detectCarrierIssues_def
        uspsShipment_def sampleShipment_def toString_def digits.simps numeral_2_eq_2)

subsection \<open>What every candidate carries\<close>

lemma adv_stamp:
  "list_all (\<lambda>a. timestamp a = now \<and> dismissed a = False \<and> read a = None \<and> readAt a = None \<and>
      dismissedAt a = None \<and>
      md_carrier (metadata a) = carrier s \<and> md_status (metadata a) = status s) (detectAdvancedPatterns now rnd s)"
  by (simp add: detectAdvancedPatterns_def Let_def createAlert_sel split: option.splits)

lemma overdue_stamp:
  "list_all (\<lambda>a. timestamp a = now \<and> dismissed a = False \<and> read a = None \<and> readAt a = None \<and>
      dismissedAt a = None \<and>
      md_carrier (metadata a) = carrier s \<and> md_status (metadata a) = status s) (overdueAlerts now rnd s)"
  by (simp add: overdueAlerts_def createAlert_sel split: option.splits)

lemma base_stamp:
  "list_all (\<lambda>a. timestamp a = now \<and> dismissed a = False \<and> read a = None \<and> readAt a = None \<and>
      dismissedAt a = None \<and>
      md_carrier (metadata a) = carrier s \<and> md_status (metadata a) = status s) (analyzeShipmentForAlerts False now rnd s prev)"
  using overdue_stamp [where now = now and rnd = rnd and s = s]
  by (cases "status s = ''delayed''"; cases "status s = ''delivered''")
     (simp_all add: analyze_base createAlert_sel)

lemma analyze_stamp:
  "list_all (\<lambda>a. timestamp a = now \<and> dismissed a = False \<and> read a = None \<and> readAt a = None \<and>
      dismissedAt a = None \<and>
      md_carrier (metadata a) = carrier s \<and> md_status (metadata a) = status s) (analyzeShipmentForAlerts premium now rnd s prev)"
  using base_stamp [where now = now and rnd = rnd and s = s and prev = prev]
    adv_stamp [where now = now and s = s and
      rnd = "\<lambda>i. rnd (length (analyzeShipmentForAlerts False now rnd s prev) + i)"]
  by (subst analyze_premium) (simp add: Let_def)

lemma adv_ids:
  "map alert_id (detectAdvancedPatterns now rnd s) =
     map (\<lambda>i. ''alert_'' @ toString now @ ''_'' @ rnd i)
       [0..<length (detectAdvancedPatterns now rnd s)]"
proof (cases "hasUnusualRouting s"; cases "detectCarrierIssues now s")
qed (simp_all add: detectAdvancedPatterns_def createAlert_sel)

lemma overdue_ids:
  "map alert_id (overdueAlerts now rnd s) =
     map (\<lambda>i. ''alert_'' @ toString now @ ''_'' @ rnd i) [0..<length (overdueAlerts now rnd s)]"
  using overdueAlerts_cases [of now rnd s] by (auto simp: createAlert_sel)

lemma base_ids:
  "map alert_id (analyzeShipmentForAlerts False now rnd s prev) =
     map (\<lambda>i. ''alert_'' @ toString now @ ''_'' @ rnd i)
       [0..<length (analyzeShipmentForAlerts False now rnd s prev)]"
proof (cases "status s = ''delayed'' \<or> status s = ''delivered''")
  case True
  then show ?thesis by (auto simp: analyze_base createAlert_sel)
next
  case False
  let ?O = "overdueAlerts now rnd s"
  have o: "map alert_id ?O = map (\<lambda>i. ''alert_'' @ toString now @ ''_'' @ rnd i) [0..<length ?O]"
    by (rule overdue_ids)
  show ?thesis
  proof (cases "status s = ''out_for_delivery'' \<or> isShipmentStuck now s")
    case True
    with False have "map alert_id (analyzeShipmentForAlerts False now rnd s prev) =
        map alert_id ?O @ [''alert_'' @ toString now @ ''_'' @ rnd (length ?O)]"
      by (auto simp: analyze_base createAlert_sel)
    moreover from True False have "length (analyzeShipmentForAlerts False now rnd s prev) = Suc (length ?O)"
      by (auto simp: analyze_base)
    ultimately show ?thesis using o by simp
  next
    case nf: False
    with False have "analyzeShipmentForAlerts False now rnd s prev = ?O"
      by (simp add: analyze_base)
    then show ?thesis using o by simp
  qed
qed

lemma analyze_ids:
  "map alert_id (analyzeShipmentForAlerts premium now rnd s prev) =
     map (\<lambda>i. ''alert_'' @ toString now @ ''_'' @ rnd i)
       [0..<length (analyzeShipmentForAlerts premium now rnd s prev)]"
proof (cases premium)
  case False
  then show ?thesis using base_ids [of now rnd s prev] by simp
next
  case True
  let ?B = "analyzeShipmentForAlerts False now rnd s prev"
  let ?P = "detectAdvancedPatterns now (\<lambda>i. rnd (length ?B + i)) s"
  let ?f = "\<lambda>i. ''alert_'' @ toString now @ ''_'' @ rnd i"
  have A: "analyzeShipmentForAlerts premium now rnd s prev = ?B @ ?P"
    using True by (subst analyze_premium) (simp add: Let_def)
  have "map alert_id (?B @ ?P) = map alert_id ?B @ map alert_id ?P" by simp
  also have "\<dots> = map ?f [0..<length ?B] @ map (\<lambda>i. ?f (length ?B + i)) [0..<length ?P]"
    by (simp only: base_ids [of now rnd s prev] adv_ids [of now "\<lambda>i. rnd (length ?B + i)" s])
  also have "\<dots> = map ?f [0..<length ?B + length ?P]"
    by (rule map_upt_add [symmetric])
  finally show ?thesis by (simp only: A length_append)
qed

text \<open>
  C3, as the code has it: every candidate that \<^verbatim>\<open>analyzeShipmentForAlerts\<close> returns has
  the current time as timestamp, is not dismissed, has no \<^verbatim>\<open>read\<close> field (nor
  \<^verbatim>\<open>readAt\<close>, \<^verbatim>\<open>dismissedAt\<close>), and carries the shipment's carrier and status in its
  metadata.  Its id is \<^verbatim>\<open>alert_\<close>, the current time, \<^verbatim>\<open>_\<close> and the random suffix drawn
  for it, the \<open>i\<close>-th candidate taking the \<open>i\<close>-th draw; so the ids of one call differ
  from one another whenever the suffixes drawn do.
\<close>

theorem candidate_stamp:
  "(\<forall>a\<in>set (analyzeShipmentForAlerts premium now rnd s prev).
      timestamp a = now \<and> dismissed a = False \<and> read a = None \<and> readAt a = None \<and>
      dismissedAt a = None \<and>
      md_carrier (metadata a) = carrier s \<and> md_status (metadata a) = status s) \<and>
   map alert_id (analyzeShipmentForAlerts premium now rnd s prev) =
     map (\<lambda>i. ''alert_'' @ toString now @ ''_'' @ rnd i)
       [0..<length (analyzeShipmentForAlerts premium now rnd s prev)] \<and>
   (inj_on rnd {0..<length (analyzeShipmentForAlerts premium now rnd s prev)} \<longrightarrow>
      distinct (map alert_id (analyzeShipmentForAlerts premium now rnd s prev)))"
proof (intro conjI impI)
  show "\<forall>a\<in>set (analyzeShipmentForAlerts premium now rnd s prev).
      timestamp a = now \<and> dismissed a = False \<and> read a = None \<and> readAt a = None \<and>
      dismissedAt a = None \<and>
      md_carrier (metadata a) = carrier s \<and> md_status (metadata a) = status s"
    using analyze_stamp [where now = now and rnd = rnd and s = s and prev = prev
                           and premium = premium]
    by (simp only: list_all_iff)
next
  show ids: "map alert_id (analyzeShipmentForAlerts premium now rnd s prev) =
     map (\<lambda>i. ''alert_'' @ toString now @ ''_'' @ rnd i)
       [0..<length (analyzeShipmentForAlerts premium now rnd s prev)]"
    by (rule analyze_ids)
  assume inj: "inj_on rnd {0..<length (analyzeShipmentForAlerts premium now rnd s prev)}"
  have "inj_on (\<lambda>i. ''alert_'' @ toString now @ ''_'' @ rnd i)
          {0..<length (analyzeShipmentForAlerts premium now rnd s prev)}"
    using inj by (simp add: inj_on_def)
  then have "distinct (map (\<lambda>i. ''alert_'' @ toString now @ ''_'' @ rnd i)
       [0..<length (analyzeShipmentForAlerts premium now rnd s prev)])"
    by (simp add: distinct_map)
  then show "distinct (map alert_id (analyzeShipmentForAlerts premium now rnd s prev))"
    by (simp only: ids)
qed

text \<open>
  An instance of C3: an overdue, stalled USPS shipment with the premium gate on gets three
  candidates, with three ids.
\<close>

theorem candidate_stamp_witness:
  "inj_on sampleRnd {0..<length (analyzeShipmentForAlerts True 1000000000 sampleRnd
       uspsShipment None)} \<and>
   map alert_id (analyzeShipmentForAlerts True 1000000000 sampleRnd uspsShipment None) =
     [''alert_1000000000_k3x0'', ''alert_1000000000_k3x1'', ''alert_1000000000_k3x2''] \<and>
   distinct (map alert_id (analyzeShipmentForAlerts True 1000000000 sampleRnd uspsShipment None)) \<and>
   map timestamp (analyzeShipmentForAlerts True 1000000000 sampleRnd uspsShipment None) =
     [1000000000, 1000000000, 1000000000] \<and>
   map read (analyzeShipmentForAlerts True 1000000000 sampleRnd uspsShipment None) =
     [None, None, None] \<and>
   map (md_carrier \<circ> metadata)
     (analyzeShipmentForAlerts True 1000000000 sampleRnd uspsShipment None) =
     [''usps'', ''usps'', ''usps'']"
proof -
  have inj: "inj_on sampleRnd {0..<length (analyzeShipmentForAlerts True 1000000000 sampleRnd
       uspsShipment None)}"
    by (rule sampleRnd_inj_small) (simp add: uspsShipment_alerts)
  have car: "carrier uspsShipment = ''usps''"
    by (simp add: uspsShipment_def)
  show ?thesis
    using inj candidate_stamp [of True 1000000000 sampleRnd uspsShipment None]
    by (simp add: uspsShipment_alerts createAlert_sel car sampleRnd_def toString_def
          digits.simps)
qed

text \<open>
  Against C3 as stated: the candidate of a shipment that is out for delivery has no
  \<^verbatim>\<open>read\<close> field, so \<^verbatim>\<open>read\<close> is not \<^verbatim>\<open>false\<close>.
\<close>

theorem candidate_stamp_counterexample:
  "map read (analyzeShipmentForAlerts False 1000 sampleRnd
      (sampleShipment\<lparr>status := ''out_for_delivery''\<rparr>) None) = [None] \<and>
   \<not> list_all (\<lambda>a. read a = Some False)
      (analyzeShipmentForAlerts False 1000 sampleRnd
         (sampleShipment\<lparr>status := ''out_for_delivery''\<rparr>) None)"
  by (simp add: analyze_base overdueAlerts_def createAlert_sel sampleShipment_def)

subsection \<open>Overdue shipments\<close>

text \<open>
  C5: a shipment with an estimated delivery in the past whose status is neither delivered
  nor delayed gets the overdue alert: type warning, priority high, and a message that
  gives the days overdue as the ceiling of (now - estimatedDelivery) / one day.  When in
  addition the status is pending, the estimate is at most one day old, the last update is
  at most 48 hours old and the premium gate is off, the result is exactly that one alert
  and its message mentions "1 day(s) overdue".
\<close>

theorem overdue_alert:
  assumes "estimatedDelivery s = Some est" and "est < now"
    and "status s \<noteq> ''delivered''" and "status s \<noteq> ''delayed''"
  shows "(\<exists>a\<in>set (analyzeShipmentForAlerts premium now rnd s prev).
            type a = ''warning'' \<and> priority a = ''high'' \<and>
            message a = nickname s @ '' is '' @
              toString \<lceil>real_of_int (now - est) / real_of_int msPerDay\<rceil> @ '' day(s) overdue'') \<and>
         (status s = ''pending'' \<and> now - est \<le> msPerDay \<and>
          getHoursSinceUpdate now s \<le> 48 \<and> \<not> premium \<longrightarrow>
            (\<exists>a. analyzeShipmentForAlerts premium now rnd s prev = [a] \<and>
                 type a = ''warning'' \<and> priority a = ''high'' \<and>
                 message a = nickname s @ '' is 1 day(s) overdue'' \<and>
                 includes_str (message a) ''1 day(s) overdue''))"
proof (intro conjI impI)
  let ?a = "createAlert now (rnd 0) DELAY_DETECTED
           (nickname s @ '' is '' @ toString (getDaysOverdue now est) @ '' day(s) overdue'') s None"
  have o: "overdueAlerts now rnd s = [?a]"
    using assms by (rule overdueAlerts_fires)
  have "?a \<in> set (analyzeShipmentForAlerts False now rnd s prev)"
    using assms(3,4) by (simp add: analyze_base o)
  then have "?a \<in> set (analyzeShipmentForAlerts premium now rnd s prev)"
    using base_subset by blast
  moreover have "type ?a = ''warning''" "priority ?a = ''high''"
    by (simp_all add: createAlert_sel type_consts priority_consts)
  moreover have "message ?a = nickname s @ '' is '' @
      toString \<lceil>real_of_int (now - est) / real_of_int msPerDay\<rceil> @ '' day(s) overdue''"
    by (simp add: createAlert_sel getDaysOverdue_def)
  ultimately show "\<exists>a\<in>set (analyzeShipmentForAlerts premium now rnd s prev).
            type a = ''warning'' \<and> priority a = ''high'' \<and>
            message a = nickname s @ '' is '' @
              toString \<lceil>real_of_int (now - est) / real_of_int msPerDay\<rceil> @ '' day(s) overdue''"
    by (intro bexI [of _ ?a] conjI)
next
  assume sc: "status s = ''pending'' \<and> now - est \<le> msPerDay \<and>
          getHoursSinceUpdate now s \<le> 48 \<and> \<not> premium"
  let ?a = "createAlert now (rnd 0) DELAY_DETECTED
           (nickname s @ '' is '' @ toString (getDaysOverdue now est) @ '' day(s) overdue'') s None"
  have o: "overdueAlerts now rnd s = [?a]"
    using assms by (rule overdueAlerts_fires)
  have d: "getDaysOverdue now est = 1"
    using assms(2) sc by (intro days_one) simp_all
  have ns: "\<not> isShipmentStuck now s"
    using sc by (simp add: isShipmentStuck_def)
  have A: "analyzeShipmentForAlerts premium now rnd s prev = [?a]"
    using sc ns by (simp add: analyze_base o)
  have m: "message ?a = nickname s @ '' is 1 day(s) overdue''"
    by (simp add: createAlert_sel d toString_1)
  have "nickname s @ '' is 1 day(s) overdue'' = (nickname s @ '' is '') @ ''1 day(s) overdue'' @ []"
    by simp
  then have i: "includes_str (message ?a) ''1 day(s) overdue''"
    by (simp only: m includes_str_mid)
  have "type ?a = ''warning''" "priority ?a = ''high''"
    by (simp_all add: createAlert_sel type_consts priority_consts)
  with A m i show "\<exists>a. analyzeShipmentForAlerts premium now rnd s prev = [a] \<and>
                 type a = ''warning'' \<and> priority a = ''high'' \<and>
                 message a = nickname s @ '' is 1 day(s) overdue'' \<and>
                 includes_str (message a) ''1 day(s) overdue''"
    by (intro exI [of _ ?a] conjI)
qed

text \<open>
  The scenario of C5: status pending, estimated delivery exactly one day before now, last
  update 24 hours ago, premium gate off.
\<close>

theorem overdue_alert_witness:
  "estimatedDelivery (sampleShipment\<lparr>estimatedDelivery := Some 0\<rparr>) = Some 0 \<and>
   (0::int) < 86400000 \<and>
   status (sampleShipment\<lparr>estimatedDelivery := Some 0\<rparr>) = ''pending'' \<and>
   86400000 - 0 \<le> msPerDay \<and>
   getHoursSinceUpdate 86400000 (sampleShipment\<lparr>estimatedDelivery := Some 0\<rparr>) = 24 \<and>
   (\<exists>a. analyzeShipmentForAlerts False 86400000 sampleRnd
          (sampleShipment\<lparr>estimatedDelivery := Some 0\<rparr>) None = [a] \<and>
        type a = ''warning'' \<and> priority a = ''high'' \<and>
        message a = ''Books is 1 day(s) overdue'' \<and>
        includes_str (message a) ''1 day(s) overdue'')"
  using overdue_alert [of "sampleShipment\<lparr>estimatedDelivery := Some 0\<rparr>" 0 86400000
          False sampleRnd None]
  by (simp add: sampleShipment_def msPerDay_def getHoursSinceUpdate_div msPerHour_def)

subsection \<open>Delay classification\<close>

lemma latestLocationIncludes_last:
  "latestLocationIncludes s w \<longleftrightarrow>
     (\<exists>hs h loc. historicalStatuses s = hs @ [h] \<and> h_location h = Some loc \<and>
        includes_str (toLowerCase loc) w)"
proof (cases "historicalStatuses s" rule: rev_cases)
  case Nil
  then show ?thesis by (simp add: latestLocationIncludes_def)
next
  case (snoc hs h)
  then have "latestLocationIncludes s w =
      (case h_location h of None \<Rightarrow> False | Some loc \<Rightarrow> includes_str (toLowerCase loc) w)"
    by (cases hs) (simp_all add: latestLocationIncludes_def)
  with snoc show ?thesis by (auto split: option.splits)
qed

lemma delayType_of_reason:
  "getDelayAlertType ''Weather conditions causing delays'' = WEATHER_DELAY"
  "getDelayAlertType ''Customs processing delay'' = CUSTOMS_DELAY"
  "getDelayAlertType ''Address verification required'' = ADDRESS_ISSUE"
  "getDelayAlertType ''Unexpected delay in transit'' = DELAY_DETECTED"
  by (simp_all add: getDelayAlertType_def toLowerCase_def toLowerChar_def upperToLower_def)

lemma delayType_of_shipment:
  "getDelayAlertType (getDelayReason s) =
     (if latestLocationIncludes s ''weather'' then WEATHER_DELAY
      else if latestLocationIncludes s ''customs'' then CUSTOMS_DELAY
      else if latestLocationIncludes s ''address'' then ADDRESS_ISSUE
      else DELAY_DETECTED)"
  by (simp add: getDelayReason_def delayType_of_reason)

lemma analyze_delayed:
  assumes "status s = ''delayed''"
  shows "analyzeShipmentForAlerts premium now rnd s prev =
           createAlert now (rnd 0) (getDelayAlertType (getDelayReason s))
             (nickname s @ '': '' @ getDelayReason s) s None #
           (if premium then detectAdvancedPatterns now (\<lambda>i. rnd (1 + i)) s else [])"
  using assms by (subst analyze_premium) (simp add: analyze_base Let_def)

text \<open>
  C6, as the code has it: for a shipment with status delayed the first alert returned
  (the only one when the premium gate is off) is chosen by the lower-cased location text
  of the last history entry, in this order of precedence: "weather" gives Weather Delay
  (warning, medium); otherwise "customs" gives Customs Processing (warning, medium);
  otherwise "address" gives Address Problem (error, high); otherwise, also when there is
  no entry or no location, the generic Shipment Delayed (warning, high).
\<close>

theorem delay_classification:
  assumes "status s = ''delayed''"
  shows "\<exists>a rest. analyzeShipmentForAlerts premium now rnd s prev = a # rest \<and>
           (\<not> premium \<longrightarrow> rest = []) \<and>
           (if latestLocationIncludes s ''weather''
            then title a = ''Weather Delay'' \<and> type a = ''warning'' \<and> priority a = ''medium''
            else if latestLocationIncludes s ''customs''
            then title a = ''Customs Processing'' \<and> type a = ''warning'' \<and>
                 priority a = ''medium''
            else if latestLocationIncludes s ''address''
            then title a = ''Address Problem'' \<and> type a = ''error'' \<and> priority a = ''high''
            else title a = ''Shipment Delayed'' \<and> type a = ''warning'' \<and>
                 priority a = ''high'') \<and>
           (\<forall>w. latestLocationIncludes s w \<longleftrightarrow>
                (\<exists>hs h loc. historicalStatuses s = hs @ [h] \<and> h_location h = Some loc \<and>
                   (\<exists>xs zs. toLowerCase loc = xs @ w @ zs)))"
proof -
  let ?a = "createAlert now (rnd 0) (getDelayAlertType (getDelayReason s))
             (nickname s @ '': '' @ getDelayReason s) s None"
  let ?rest = "if premium then detectAdvancedPatterns now (\<lambda>i. rnd (1 + i)) s else []"
  have A: "analyzeShipmentForAlerts premium now rnd s prev = ?a # ?rest"
    using assms by (rule analyze_delayed)
  have r: "\<not> premium \<longrightarrow> ?rest = []" by simp
  have c: "if latestLocationIncludes s ''weather''
            then title ?a = ''Weather Delay'' \<and> type ?a = ''warning'' \<and> priority ?a = ''medium''
            else if latestLocationIncludes s ''customs''
            then title ?a = ''Customs Processing'' \<and> type ?a = ''warning'' \<and>
                 priority ?a = ''medium''
            else if latestLocationIncludes s ''address''
            then title ?a = ''Address Problem'' \<and> type ?a = ''error'' \<and> priority ?a = ''high''
            else title ?a = ''Shipment Delayed'' \<and> type ?a = ''warning'' \<and>
                 priority ?a = ''high''"
    by (simp add: createAlert_sel delayType_of_shipment type_consts priority_consts title_consts)
  have l: "\<forall>w. latestLocationIncludes s w \<longleftrightarrow>
                (\<exists>hs h loc. historicalStatuses s = hs @ [h] \<and> h_location h = Some loc \<and>
                   (\<exists>xs zs. toLowerCase loc = xs @ w @ zs))"
    by (simp only: latestLocationIncludes_last includes_str_iff) simp
  from A r c l show ?thesis by blast
qed

text \<open>
  Instances of C6: a location in capitals is matched, and each of the four classes
  occurs.
\<close>

theorem delay_classification_witness:
  "status (delayedShipment ''WEATHER hold'') = ''delayed'' \<and>
   map title (analyzeShipmentForAlerts False 1000 sampleRnd
      (delayedShipment ''WEATHER hold'') None) = [''Weather Delay''] \<and>
   map priority (analyzeShipmentForAlerts False 1000 sampleRnd
      (delayedShipment ''WEATHER hold'') None) = [''medium''] \<and>
   map title (analyzeShipmentForAlerts False 1000 sampleRnd
      (delayedShipment ''Held at Customs'') None) = [''Customs Processing''] \<and>
   map title (analyzeShipmentForAlerts False 1000 sampleRnd
      (delayedShipment ''Bad address'') None) = [''Address Problem''] \<and>
   map title (analyzeShipmentForAlerts False 1000 sampleRnd
      (delayedShipment ''Memphis hub'') None) = [''Shipment Delayed'']"
  using delay_classification [of "delayedShipment ''WEATHER hold''" False 1000 sampleRnd None]
        delay_classification [of "delayedShipment ''Held at Customs''" False 1000 sampleRnd None]
        delay_classification [of "delayedShipment ''Bad address''" False 1000 sampleRnd None]
        delay_classification [of "delayedShipment ''Memphis hub''" False 1000 sampleRnd None]
  by (simp add: analyze_delayed delayType_of_shipment createAlert_sel title_consts
        priority_consts latestLocationIncludes_def delayedShipment_def sampleShipment_def
        toLowerCase_def toLowerChar_def upperToLower_def)

text \<open>
  Against C6 as stated: the last location contains "customs", yet the alert is the
  weather delay, because the location contains "weather" too and that is tested first.
\<close>

theorem delay_classification_counterexample:
  "status (delayedShipment ''Customs hold (weather)'') = ''delayed'' \<and>
   latestLocationIncludes (delayedShipment ''Customs hold (weather)'') ''customs'' \<and>
   map title (analyzeShipmentForAlerts False 1000 sampleRnd
      (delayedShipment ''Customs hold (weather)'') None) = [''Weather Delay''] \<and>
   map title (analyzeShipmentForAlerts False 1000 sampleRnd
      (delayedShipment ''Customs hold (weather)'') None) \<noteq> [''Customs Processing'']"
  by (simp add: analyze_delayed delayType_of_shipment createAlert_sel title_consts
        latestLocationIncludes_def delayedShipment_def sampleShipment_def
        toLowerCase_def toLowerChar_def upperToLower_def)

subsection \<open>Delivered shipments\<close>

lemma adv_no_success:
  "filter (\<lambda>a. type a = ''success'') (detectAdvancedPatterns now rnd s) = []"
  by (auto simp: filter_empty_conv dest: adv_types)

lemma base_success:
  "filter (\<lambda>a. type a = ''success'') (analyzeShipmentForAlerts False now rnd s prev) =
     (if status s = ''delivered'' \<and> prev \<noteq> Some ''delivered''
      then [createAlert now (rnd 0) DELIVERED
              (nickname s @ '' has been successfully delivered'') s None]
      else [])"
proof -
  have o: "filter (\<lambda>a. type a = ''success'') (overdueAlerts now rnd s) = []"
    using overdueAlerts_cases [of now rnd s] by (auto simp: createAlert_sel type_consts)
  have d: "t_type (getDelayAlertType r) \<noteq> ''success''" for r
    using delay_type_cases [of r] by (auto simp: type_consts)
  show ?thesis
    by (simp add: analyze_base o d createAlert_sel type_consts)
qed

lemma analyze_success:
  "filter (\<lambda>a. type a = ''success'') (analyzeShipmentForAlerts premium now rnd s prev) =
     (if status s = ''delivered'' \<and> prev \<noteq> Some ''delivered''
      then [createAlert now (rnd 0) DELIVERED
              (nickname s @ '' has been successfully delivered'') s None]
      else [])"
  by (subst analyze_premium) (simp add: Let_def adv_no_success base_success)

text \<open>
  C7: \<^verbatim>\<open>analyzeShipmentForAlerts\<close> yields a success alert of priority medium exactly
  when the status is delivered and the previous status is not delivered; such an alert is
  the "Package Delivered" alert and there is at most one.  So a shipment going from
  in_transit to delivered gets exactly one, and a shipment that was already delivered gets
  none.  The premium gate plays no part.
\<close>

theorem delivered_alert_iff:
  "((\<exists>a\<in>set (analyzeShipmentForAlerts premium now rnd s prev).
        type a = ''success'' \<and> priority a = ''medium'') \<longleftrightarrow>
      status s = ''delivered'' \<and> prev \<noteq> Some ''delivered'') \<and>
   (\<forall>a\<in>set (analyzeShipmentForAlerts premium now rnd s prev).
      type a = ''success'' \<longrightarrow> priority a = ''medium'' \<and> title a = ''Package Delivered'') \<and>
   length (filter (\<lambda>a. type a = ''success'') (analyzeShipmentForAlerts premium now rnd s prev)) =
     (if status s = ''delivered'' \<and> prev \<noteq> Some ''delivered'' then 1 else 0) \<and>
   (status s = ''delivered'' \<and> prev = Some ''in_transit'' \<longrightarrow>
      length (filter (\<lambda>a. type a = ''success'')
        (analyzeShipmentForAlerts premium now rnd s prev)) = 1) \<and>
   (status s = ''delivered'' \<and> prev = Some ''delivered'' \<longrightarrow>
      length (filter (\<lambda>a. type a = ''success'')
        (analyzeShipmentForAlerts premium now rnd s prev)) = 0)"
proof -
  let ?A = "analyzeShipmentForAlerts premium now rnd s prev"
  let ?d = "createAlert now (rnd 0) DELIVERED
              (nickname s @ '' has been successfully delivered'') s None"
  let ?c = "status s = ''delivered'' \<and> prev \<noteq> Some ''delivered''"
  have f: "filter (\<lambda>a. type a = ''success'') ?A = (if ?c then [?d] else [])"
    by (rule analyze_success)
  have mem: "(a \<in> set ?A \<and> type a = ''success'') = (?c \<and> a = ?d)" for a
  proof -
    have "(a \<in> set ?A \<and> type a = ''success'') = (a \<in> set (filter (\<lambda>a. type a = ''success'') ?A))"
      by auto
    also have "\<dots> = (?c \<and> a = ?d)" by (simp only: f) auto
    finally show ?thesis .
  qed
  have dd: "type ?d = ''success''" "priority ?d = ''medium''" "title ?d = ''Package Delivered''"
    by (simp_all add: createAlert_sel type_consts priority_consts title_consts)
  have c1: "(\<exists>a\<in>set ?A. type a = ''success'' \<and> priority a = ''medium'') \<longleftrightarrow> ?c"
  proof
    assume "\<exists>a\<in>set ?A. type a = ''success'' \<and> priority a = ''medium''"
    then obtain a where "a \<in> set ?A \<and> type a = ''success''" by auto
    then have "?c \<and> a = ?d" by (rule iffD1 [OF mem])
    then show ?c by (rule conjunct1)
  next
    assume ?c
    then have "?c \<and> ?d = ?d" by simp
    then have "?d \<in> set ?A \<and> type ?d = ''success''" by (rule iffD2 [OF mem])
    then show "\<exists>a\<in>set ?A. type a = ''success'' \<and> priority a = ''medium''"
      using dd(2) by (intro bexI [of _ ?d]) simp_all
  qed
  have c2: "\<forall>a\<in>set ?A. type a = ''success'' \<longrightarrow>
              priority a = ''medium'' \<and> title a = ''Package Delivered''"
  proof (intro ballI impI)
    fix a assume "a \<in> set ?A" "type a = ''success''"
    then have "a \<in> set ?A \<and> type a = ''success''" by simp
    then have "?c \<and> a = ?d" by (rule iffD1 [OF mem])
    then have "a = ?d" by (rule conjunct2)
    then show "priority a = ''medium'' \<and> title a = ''Package Delivered''"
      using dd by simp
  qed
  have c3: "length (filter (\<lambda>a. type a = ''success'') ?A) = (if ?c then 1 else 0)"
    by (simp add: f)
  have c4: "status s = ''delivered'' \<and> prev = Some ''in_transit'' \<longrightarrow>
      length (filter (\<lambda>a. type a = ''success'') ?A) = 1"
    using c3 by auto
  have c5: "status s = ''delivered'' \<and> prev = Some ''delivered'' \<longrightarrow>
      length (filter (\<lambda>a. type a = ''success'') ?A) = 0"
    using c3 by auto
  from c1 c2 c3 c4 c5 show ?thesis by (intro conjI)
qed

text \<open>Instances of C7, with the premium gate on.\<close>

theorem delivered_alert_iff_witness:
  "length (filter (\<lambda>a. type a = ''success'')
     (analyzeShipmentForAlerts True 1000 sampleRnd (sampleShipment\<lparr>status := ''delivered''\<rparr>)
        (Some ''in_transit''))) = 1 \<and>
   length (filter (\<lambda>a. type a = ''success'')
     (analyzeShipmentForAlerts True 1000 sampleRnd (sampleShipment\<lparr>status := ''delivered''\<rparr>)
        (Some ''delivered''))) = 0"
  using delivered_alert_iff [of True 1000 sampleRnd "sampleShipment\<lparr>status := ''delivered''\<rparr>"
          "Some ''in_transit''"]
        delivered_alert_iff [of True 1000 sampleRnd "sampleShipment\<lparr>status := ''delivered''\<rparr>"
          "Some ''delivered''"]
  by (simp add: sampleShipment_def)

subsection \<open>The number of alerts of one call\<close>

text \<open>
  C10: with the premium gate off, one call of \<^verbatim>\<open>analyzeShipmentForAlerts\<close> returns at most
  two alerts; the statuses delayed, delivered and exception admit at most one; and two
  alerts are either overdue and stuck (status in_transit or pending) or overdue and out
  for delivery (status out_for_delivery).
\<close>

theorem premium_off_at_most_two:
  "length (analyzeShipmentForAlerts False now rnd s prev) \<le> 2 \<and>
   (status s \<in> {''delayed'', ''delivered'', ''exception''} \<longrightarrow>
      length (analyzeShipmentForAlerts False now rnd s prev) \<le> 1) \<and>
   (length (analyzeShipmentForAlerts False now rnd s prev) = 2 \<longrightarrow>
      (status s \<in> {''in_transit'', ''pending''} \<and>
       map title (analyzeShipmentForAlerts False now rnd s prev) =
         [''Shipment Delayed'', ''Delivery Exception'']) \<or>
      (status s = ''out_for_delivery'' \<and>
       map title (analyzeShipmentForAlerts False now rnd s prev) =
         [''Shipment Delayed'', ''Delivery Today'']))"
proof -
  let ?A = "analyzeShipmentForAlerts False now rnd s prev"
  let ?O = "overdueAlerts now rnd s"
  have len: "length ?O \<le> 1" by (rule overdueAlerts_length)
  have ttl: "map title ?O = replicate (length ?O) ''Shipment Delayed''"
    using overdueAlerts_cases [of now rnd s] by (auto simp: createAlert_sel title_consts)
  show ?thesis
  proof (cases "status s = ''delayed'' \<or> status s = ''delivered''")
    case True
    then show ?thesis by (auto simp: analyze_base)
  next
    case False
    note nd = this
    show ?thesis
    proof (cases "status s = ''out_for_delivery''")
      case True
      then show ?thesis using len ttl
        by (cases ?O) (auto simp: analyze_base createAlert_sel title_consts)
    next
      case nofd: False
      show ?thesis
      proof (cases "isShipmentStuck now s")
        case True
        then show ?thesis using len ttl nd nofd stuck_status [OF True]
          by (cases ?O) (auto simp: analyze_base createAlert_sel title_consts)
      next
        case False
        then show ?thesis using len nd nofd by (simp add: analyze_base)
      qed
    qed
  qed
qed

text \<open>
  Instances of C10: both pairs occur, and an overdue shipment in status exception gets
  one alert.
\<close>

theorem premium_off_at_most_two_witness:
  "map title (analyzeShipmentForAlerts False 1000000000 sampleRnd
      (sampleShipment\<lparr>status := ''in_transit'', estimatedDelivery := Some 0\<rparr>) None) =
     [''Shipment Delayed'', ''Delivery Exception''] \<and>
   map title (analyzeShipmentForAlerts False 1000000000 sampleRnd
      (sampleShipment\<lparr>status := ''out_for_delivery'', estimatedDelivery := Some 0\<rparr>) None) =
     [''Shipment Delayed'', ''Delivery Today''] \<and>
   length (analyzeShipmentForAlerts False 1000000000 sampleRnd
      (sampleShipment\<lparr>status := ''exception'', estimatedDelivery := Some 0\<rparr>) None) = 1"
  using premium_off_at_most_two [of 1000000000 sampleRnd
          "sampleShipment\<lparr>status := ''in_transit'', estimatedDelivery := Some 0\<rparr>" None]
        premium_off_at_most_two [of 1000000000 sampleRnd
          "sampleShipment\<lparr>status := ''out_for_delivery'', estimatedDelivery := Some 0\<rparr>" None]
        premium_off_at_most_two [of 1000000000 sampleRnd
          "sampleShipment\<lparr>status := ''exception'', estimatedDelivery := Some 0\<rparr>" None]
  by (simp add: analyze_base overdueAlerts_def isShipmentStuck_def getHoursSinceUpdate_div
        msPerHour_def sampleShipment_def createAlert_sel title_consts)

subsection \<open>Admission\<close>

lemma dedup_member:
  "c \<in> set (deduplicateAlerts newAlerts existing) \<longleftrightarrow>
     c \<in> set newAlerts \<and>
     (\<forall>e\<in>set existing. alert_shipmentId e = alert_shipmentId c \<and> type e = type c \<and>
        title e = title c \<longrightarrow> dismissed e)"
  by (auto simp: deduplicateAlerts_def list_ex_iff)

text \<open>
  C4, as the code has it: admission checks nothing but the dedup key.  A candidate is
  admitted exactly when no existing alert that is not dismissed has the same shipmentId,
  type and title, where a missing shipmentId equals only a missing shipmentId; the order of
  the candidates is kept.  So a candidate without shipmentId is admitted whenever every
  existing alert has one.
\<close>

theorem admission_rule:
  "(\<forall>c. c \<in> set (deduplicateAlerts newAlerts existing) \<longleftrightarrow>
        c \<in> set newAlerts \<and>
        (\<forall>e\<in>set existing. alert_shipmentId e = alert_shipmentId c \<and> type e = type c \<and>
           title e = title c \<longrightarrow> dismissed e)) \<and>
   (\<exists>keep. deduplicateAlerts newAlerts existing = filter keep newAlerts) \<and>
   ((\<forall>c\<in>set newAlerts. alert_shipmentId c = None) \<and>
    (\<forall>e\<in>set existing. alert_shipmentId e \<noteq> None) \<longrightarrow>
      deduplicateAlerts newAlerts existing = newAlerts)"
proof (intro conjI allI impI)
  fix c
  show "c \<in> set (deduplicateAlerts newAlerts existing) \<longleftrightarrow>
        c \<in> set newAlerts \<and>
        (\<forall>e\<in>set existing. alert_shipmentId e = alert_shipmentId c \<and> type e = type c \<and>
           title e = title c \<longrightarrow> dismissed e)"
    by (rule dedup_member)
next
  show "\<exists>keep. deduplicateAlerts newAlerts existing = filter keep newAlerts"
    unfolding deduplicateAlerts_def by (rule exI) (rule refl)
next
  assume h: "(\<forall>c\<in>set newAlerts. alert_shipmentId c = None) \<and>
    (\<forall>e\<in>set existing. alert_shipmentId e \<noteq> None)"
  then have "\<forall>c\<in>set newAlerts. \<not> list_ex (\<lambda>e.
             alert_shipmentId e = alert_shipmentId c \<and> type e = type c \<and>
             title e = title c \<and> \<not> dismissed e) existing"
    by (auto simp: list_ex_iff)
  then show "deduplicateAlerts newAlerts existing = newAlerts"
    by (simp add: deduplicateAlerts_def)
qed

lemma noIdShipment_alerts:
  "analyzeShipmentForAlerts False now rnd noIdShipment prev =
     [createAlert now (rnd 0) DELIVERY_SOON
        ''Books is out for delivery and should arrive today'' noIdShipment None]"
  by (simp add: analyze_base overdueAlerts_def noIdShipment_def sampleShipment_def)

text \<open>
  An instance of C4: the candidate of a shipment without shipmentId passes an existing
  alert with the same type and title that has a shipmentId.
\<close>

theorem admission_rule_witness:
  "alert_shipmentId (createAlert 2000 ''b'' DELIVERY_SOON ''m'' noIdShipment None) = None \<and>
   alert_shipmentId (createAlert 1000 ''a'' DELIVERY_SOON ''m'' sampleShipment None) \<noteq> None \<and>
   deduplicateAlerts [createAlert 2000 ''b'' DELIVERY_SOON ''m'' noIdShipment None]
     [createAlert 1000 ''a'' DELIVERY_SOON ''m'' sampleShipment None] =
     [createAlert 2000 ''b'' DELIVERY_SOON ''m'' noIdShipment None]"
  using admission_rule [of "[createAlert 2000 ''b'' DELIVERY_SOON ''m'' noIdShipment None]"
          "[createAlert 1000 ''a'' DELIVERY_SOON ''m'' sampleShipment None]"]
  by (simp add: createAlert_sel noIdShipment_def sampleShipment_def)

text \<open>
  Against C4 as stated: a shipment without shipmentId yields a candidate without
  shipmentId; the dedup step admits it, and after the whole cycle (cleanup included) it is
  in the alert set of the hook and in the storage.
\<close>

theorem malformed_candidate_counterexample:
  "map alert_shipmentId (analyzeShipmentForAlerts False 1000 sampleRnd noIdShipment None) =
     [None] \<and>
   deduplicateAlerts (analyzeShipmentForAlerts False 1000 sampleRnd noIdShipment None) [] =
     analyzeShipmentForAlerts False 1000 sampleRnd noIdShipment None \<and>
   map alert_shipmentId
     (alerts (generateAlerts False defaultPreferences 1000 sampleRnd [noIdShipment] emptyState)) =
     [None] \<and>
   map alert_shipmentId
     (stored (generateAlerts False defaultPreferences 1000 sampleRnd [noIdShipment] emptyState)) =
     [None]"
  by (simp add: generateAlerts_def emptyState_def noIdShipment_alerts deduplicateAlerts_def
        cleanupOutdatedAlerts_def keepAlert_def alertAge_gt msPerDay_def createAlert_sel
        title_consts type_consts Let_def)
     (simp add: noIdShipment_def sampleShipment_def)

subsection \<open>Cleanup\<close>

text \<open>
  C8: for every alert set, every shipment collection and any fixed current time, cleaning
  up twice gives the same alert set as cleaning up once.
\<close>

theorem cleanup_idempotent:
  "cleanupOutdatedAlerts now (cleanupOutdatedAlerts now S shipments) shipments =
   cleanupOutdatedAlerts now S shipments"
  by (simp add: cleanupOutdatedAlerts_def)

text \<open>An instance of C8: one alert goes, one stays, and a second pass changes nothing.\<close>

theorem cleanup_idempotent_witness:
  "cleanupOutdatedAlerts 1000
     (cleanupOutdatedAlerts 1000
        [createAlert 0 ''a'' DELIVERY_SOON ''m'' sampleShipment None,
         createAlert 0 ''b'' EXCEPTION ''m'' sampleShipment None] [sampleShipment])
     [sampleShipment] =
   [createAlert 0 ''b'' EXCEPTION ''m'' sampleShipment None]"
  using cleanup_idempotent [of 1000
     "[createAlert 0 ''a'' DELIVERY_SOON ''m'' sampleShipment None,
       createAlert 0 ''b'' EXCEPTION ''m'' sampleShipment None]" "[sampleShipment]"]
  by (simp add: cleanupOutdatedAlerts_def keepAlert_def alertAge_gt msPerDay_def
        createAlert_sel title_consts type_consts sampleShipment_def)

subsection \<open>Dismissal\<close>

lemma dedup_ignores_dismissed:
  "deduplicateAlerts newAlerts (filter (\<lambda>a. \<not> dismissed a) existing) =
   deduplicateAlerts newAlerts existing"
  unfolding deduplicateAlerts_def
  by (rule filter_cong) (auto simp: list_ex_iff)

lemma dismiss_stored:
  "stored (dismissAlert now alertId st) =
     map (\<lambda>a. if alert_id a = alertId
               then a\<lparr>dismissed := True, dismissedAt := Some now\<rparr> else a) (alerts st)"
  by (simp add: dismissAlert_def Let_def)

lemma dismiss_alerts:
  "alerts (dismissAlert now alertId st) =
     filter (\<lambda>a. \<not> dismissed a) (stored (dismissAlert now alertId st))"
  by (simp add: dismissAlert_def Let_def)

lemma mark_filter:
  "filter (\<lambda>a. \<not> dismissed a)
     (map (\<lambda>a. if alert_id a = alertId
               then a\<lparr>dismissed := True, dismissedAt := Some now\<rparr> else a) xs) =
   filter (\<lambda>a. alert_id a \<noteq> alertId \<and> \<not> dismissed a) xs"
  by (induction xs) auto

lemma mark_marked:
  "\<forall>b\<in>set (map (\<lambda>a. if alert_id a = alertId
               then a\<lparr>dismissed := True, dismissedAt := Some now\<rparr> else a) xs).
     alert_id b = alertId \<longrightarrow> dismissed b \<and> dismissedAt b = Some now"
proof (intro ballI impI)
  let ?f = "\<lambda>a. if alert_id a = alertId
               then a\<lparr>dismissed := True, dismissedAt := Some now\<rparr> else a"
  fix b
  assume "b \<in> set (map ?f xs)" and i: "alert_id b = alertId"
  then have "b \<in> ?f ` set xs" by (simp only: set_map)
  then obtain x where b: "b = ?f x" by (rule imageE)
  show "dismissed b \<and> dismissedAt b = Some now"
  proof (cases "alert_id x = alertId")
    case True
    with b show ?thesis by simp
  next
    case False
    with b have "b = x" by simp
    with i False show ?thesis by simp
  qed
qed

lemma dismiss_alerts_eq:
  "alerts (dismissAlert now alertId st) =
     filter (\<lambda>a. alert_id a \<noteq> alertId \<and> \<not> dismissed a) (alerts st)"
  by (simp only: dismiss_alerts dismiss_stored mark_filter)

text \<open>
  C2, as the code has it: after \<^verbatim>\<open>dismissAlert\<close> on an alert of the set, the list written
  to the storage keeps that alert, marked dismissed and stamped with dismissedAt; the state
  of the hook and the visible list no longer hold any alert with that id.  The dismissed
  alert does not suppress anything: deduplication against the stored list admits the same
  candidates as deduplication against the state, and a candidate is admitted exactly when
  no other alert of the old state that is not dismissed has its shipmentId, type and title.
\<close>

theorem dismiss_effect:
  assumes "a \<in> set (alerts st)" and "alert_id a = alertId"
  shows "a\<lparr>dismissed := True, dismissedAt := Some now\<rparr>
           \<in> set (stored (dismissAlert now alertId st)) \<and>
         length (stored (dismissAlert now alertId st)) = length (alerts st) \<and>
         (\<forall>b\<in>set (stored (dismissAlert now alertId st)).
            alert_id b = alertId \<longrightarrow> dismissed b \<and> dismissedAt b = Some now) \<and>
         (\<forall>b\<in>set (visibleAlerts (dismissAlert now alertId st)). alert_id b \<noteq> alertId) \<and>
         (\<forall>b\<in>set (alerts (dismissAlert now alertId st)). alert_id b \<noteq> alertId) \<and>
         deduplicateAlerts newAlerts (stored (dismissAlert now alertId st)) =
           deduplicateAlerts newAlerts (alerts (dismissAlert now alertId st)) \<and>
         (\<forall>c. c \<in> set (deduplicateAlerts newAlerts (stored (dismissAlert now alertId st)))
              \<longleftrightarrow>
              c \<in> set newAlerts \<and>
              \<not> (\<exists>e\<in>set (alerts st). alert_id e \<noteq> alertId \<and> \<not> dismissed e \<and>
                    alert_shipmentId e = alert_shipmentId c \<and> type e = type c \<and>
                    title e = title c))"
proof (intro conjI)
  let ?st = "dismissAlert now alertId st"
  show "a\<lparr>dismissed := True, dismissedAt := Some now\<rparr> \<in> set (stored ?st)"
  proof -
    let ?f = "\<lambda>a. if alert_id a = alertId
               then a\<lparr>dismissed := True, dismissedAt := Some now\<rparr> else a"
    from assms(1) have "?f a \<in> ?f ` set (alerts st)" by (rule imageI)
    then have "?f a \<in> set (stored ?st)" by (simp only: dismiss_stored set_map)
    then show ?thesis using assms(2) by simp
  qed
  show "length (stored ?st) = length (alerts st)"
    by (simp add: dismiss_stored)
  show "\<forall>b\<in>set (stored ?st). alert_id b = alertId \<longrightarrow> dismissed b \<and> dismissedAt b = Some now"
    unfolding dismiss_stored by (rule mark_marked)
  show "\<forall>b\<in>set (alerts ?st). alert_id b \<noteq> alertId"
    by (simp add: dismiss_alerts_eq)
  then show "\<forall>b\<in>set (visibleAlerts ?st). alert_id b \<noteq> alertId"
    by (simp add: visibleAlerts_def)
  show d: "deduplicateAlerts newAlerts (stored ?st) = deduplicateAlerts newAlerts (alerts ?st)"
    by (simp only: dismiss_alerts dedup_ignores_dismissed)
  show "\<forall>c. c \<in> set (deduplicateAlerts newAlerts (stored ?st)) \<longleftrightarrow>
              c \<in> set newAlerts \<and>
              \<not> (\<exists>e\<in>set (alerts st). alert_id e \<noteq> alertId \<and> \<not> dismissed e \<and>
                    alert_shipmentId e = alert_shipmentId c \<and> type e = type c \<and>
                    title e = title c)"
  proof
    fix c
    have "c \<in> set (deduplicateAlerts newAlerts (alerts ?st)) \<longleftrightarrow>
          c \<in> set newAlerts \<and>
          (\<forall>e\<in>set (alerts ?st). alert_shipmentId e = alert_shipmentId c \<and> type e = type c \<and>
             title e = title c \<longrightarrow> dismissed e)"
      by (rule dedup_member)
    also have "\<dots> \<longleftrightarrow> c \<in> set newAlerts \<and>
              \<not> (\<exists>e\<in>set (alerts st). alert_id e \<noteq> alertId \<and> \<not> dismissed e \<and>
                    alert_shipmentId e = alert_shipmentId c \<and> type e = type c \<and>
                    title e = title c)"
      by (simp only: dismiss_alerts_eq set_filter) blast
    finally show "c \<in> set (deduplicateAlerts newAlerts (stored ?st)) \<longleftrightarrow>
              c \<in> set newAlerts \<and>
              \<not> (\<exists>e\<in>set (alerts st). alert_id e \<noteq> alertId \<and> \<not> dismissed e \<and>
                    alert_shipmentId e = alert_shipmentId c \<and> type e = type c \<and>
                    title e = title c)"
      by (simp only: d)
  qed
qed

lemma ofdShipment_alerts:
  "analyzeShipmentForAlerts False now sampleRnd ofdShipment prev = [ofdAlert now]"
  by (simp add: analyze_base overdueAlerts_def ofdShipment_def sampleShipment_def ofdAlert_def)

lemma ofdAlert_sel:
  "alert_id (ofdAlert now) = ''alert_'' @ toString now @ ''_k3x0''"
  "type (ofdAlert now) = ''info''" "priority (ofdAlert now) = ''medium''"
  "title (ofdAlert now) = ''Delivery Today''" "timestamp (ofdAlert now) = now"
  "alert_shipmentId (ofdAlert now) = Some ''s1''" "dismissed (ofdAlert now) = False"
  by (simp_all add: ofdAlert_def createAlert_sel type_consts priority_consts title_consts
        sampleRnd_def digits.simps ofdShipment_def sampleShipment_def)

lemma ofdShipment_sel:
  "shipmentId ofdShipment = Some ''s1''" "status ofdShipment = ''out_for_delivery''"
  by (simp_all add: ofdShipment_def sampleShipment_def)

lemma keep_ofdAlert:
  "keepAlert now' [ofdShipment] (ofdAlert now) = (now' - now \<le> 7 * msPerDay)"
  by (auto simp: keepAlert_def ofdAlert_sel alertAge_gt ofdShipment_sel)

lemma ofd_cycle:
  "alerts st = [] \<Longrightarrow>
   alerts (generateAlerts False prefs now sampleRnd [ofdShipment] st) = [ofdAlert now]"
  by (simp add: generateAlerts_def ofdShipment_alerts deduplicateAlerts_def
        cleanupOutdatedAlerts_def keep_ofdAlert msPerDay_def Let_def)

lemma first_cycle:
  "alerts (generateAlerts False defaultPreferences 1000 sampleRnd [ofdShipment] emptyState) =
     [ofdAlert 1000]"
  by (rule ofd_cycle) (simp add: emptyState_def)

text \<open>
  An instance of C2: the alert of the first cycle is dismissed; the storage keeps it,
  marked, the visible list is empty, and the candidate of the next cycle passes the dedup
  check against the stored list.
\<close>

theorem dismiss_effect_witness:
  "ofdAlert 1000 \<in> set (alerts (generateAlerts False defaultPreferences 1000 sampleRnd
       [ofdShipment] emptyState)) \<and>
   alert_id (ofdAlert 1000) = ''alert_1000_k3x0'' \<and>
   stored (dismissAlert 2000 ''alert_1000_k3x0''
     (generateAlerts False defaultPreferences 1000 sampleRnd [ofdShipment] emptyState)) =
     [(ofdAlert 1000)\<lparr>dismissed := True, dismissedAt := Some 2000\<rparr>] \<and>
   visibleAlerts (dismissAlert 2000 ''alert_1000_k3x0''
     (generateAlerts False defaultPreferences 1000 sampleRnd [ofdShipment] emptyState)) = [] \<and>
   deduplicateAlerts [ofdAlert 3000]
     (stored (dismissAlert 2000 ''alert_1000_k3x0''
        (generateAlerts False defaultPreferences 1000 sampleRnd [ofdShipment] emptyState))) =
     [ofdAlert 3000]"
proof -
  let ?st = "generateAlerts False defaultPreferences 1000 sampleRnd [ofdShipment] emptyState"
  have m: "ofdAlert 1000 \<in> set (alerts ?st)" by (simp add: first_cycle)
  have i: "alert_id (ofdAlert 1000) = ''alert_1000_k3x0''"
    by (simp add: ofdAlert_sel toString_def digits.simps)
  have v: "visibleAlerts (dismissAlert 2000 ''alert_1000_k3x0'' ?st) = []"
    by (simp add: visibleAlerts_def dismiss_alerts_eq first_cycle i)
  have s: "stored (dismissAlert 2000 ''alert_1000_k3x0'' ?st) =
      [(ofdAlert 1000)\<lparr>dismissed := True, dismissedAt := Some 2000\<rparr>]"
    by (simp add: dismiss_stored first_cycle i)
  have d: "deduplicateAlerts [ofdAlert 3000] (stored (dismissAlert 2000 ''alert_1000_k3x0'' ?st))
      = [ofdAlert 3000]"
    using dismiss_effect [OF m i, of 2000 "[ofdAlert 3000]"]
    by (simp add: s deduplicateAlerts_def)
  from m i s v d show ?thesis by (intro conjI)
qed

text \<open>
  Against C2 as stated: after the dismissal the next cycle, on the unchanged shipment,
  admits a new "Delivery Today" alert for the same shipment; the dismissed alert in the
  storage does not suppress it, and the new alert is visible.
\<close>

theorem dismiss_suppression_counterexample:
  "map title (visibleAlerts
     (generateAlerts False defaultPreferences 1000 sampleRnd [ofdShipment] emptyState)) =
     [''Delivery Today''] \<and>
   visibleAlerts (dismissAlert 2000 ''alert_1000_k3x0''
     (generateAlerts False defaultPreferences 1000 sampleRnd [ofdShipment] emptyState)) = [] \<and>
   map dismissed (stored (dismissAlert 2000 ''alert_1000_k3x0''
     (generateAlerts False defaultPreferences 1000 sampleRnd [ofdShipment] emptyState))) =
     [True] \<and>
   map title (deduplicateAlerts
     (analyzeShipmentForAlerts False 3000 sampleRnd ofdShipment (Some ''out_for_delivery''))
     (stored (dismissAlert 2000 ''alert_1000_k3x0''
        (generateAlerts False defaultPreferences 1000 sampleRnd [ofdShipment] emptyState)))) =
     [''Delivery Today''] \<and>
   map title (visibleAlerts (generateAlerts False defaultPreferences 3000 sampleRnd [ofdShipment]
     (dismissAlert 2000 ''alert_1000_k3x0''
        (generateAlerts False defaultPreferences 1000 sampleRnd [ofdShipment] emptyState)))) =
     [''Delivery Today'']"
proof -
  let ?st = "generateAlerts False defaultPreferences 1000 sampleRnd [ofdShipment] emptyState"
  let ?st1 = "dismissAlert 2000 ''alert_1000_k3x0'' ?st"
  have i: "alert_id (ofdAlert 1000) = ''alert_1000_k3x0''"
    by (simp add: ofdAlert_sel toString_def digits.simps)
  have a1: "alerts ?st1 = []"
    by (simp add: dismiss_alerts_eq first_cycle i)
  have s1: "stored ?st1 = [(ofdAlert 1000)\<lparr>dismissed := True, dismissedAt := Some 2000\<rparr>]"
    by (simp add: dismiss_stored first_cycle i)
  have c1: "map title (visibleAlerts ?st) = [''Delivery Today'']"
    by (simp add: visibleAlerts_def first_cycle ofdAlert_sel)
  have c2: "visibleAlerts ?st1 = []"
    by (simp add: visibleAlerts_def a1)
  have c3: "map dismissed (stored ?st1) = [True]"
    by (simp add: s1)
  have c4: "map title (deduplicateAlerts
     (analyzeShipmentForAlerts False 3000 sampleRnd ofdShipment (Some ''out_for_delivery''))
     (stored ?st1)) = [''Delivery Today'']"
    by (simp add: s1 ofdShipment_alerts deduplicateAlerts_def ofdAlert_sel)
  have c5: "map title (visibleAlerts
      (generateAlerts False defaultPreferences 3000 sampleRnd [ofdShipment] ?st1)) =
     [''Delivery Today'']"
    by (simp add: ofd_cycle [OF a1] visibleAlerts_def ofdAlert_sel)
  from c1 c2 c3 c4 c5 show ?thesis by (intro conjI)
qed

subsection \<open>The cycle and the dedup key\<close>

lemma usps_cycle:
  "alerts (generateAlerts True prefs 1000000000 sampleRnd [uspsShipment] emptyState) =
     analyzeShipmentForAlerts True 1000000000 sampleRnd uspsShipment None"
proof -
  have sel: "shipmentId uspsShipment = Some ''s1''" "status uspsShipment = ''in_transit''"
    by (simp_all add: uspsShipment_def sampleShipment_def)
  have keep: "t_title t \<noteq> ''Delivery Today'' \<Longrightarrow>
      keepAlert 1000000000 [uspsShipment] (createAlert 1000000000 r t m uspsShipment p)"
    for r t m p
    by (simp add: keepAlert_def createAlert_sel sel alertAge_gt msPerDay_def)
  show ?thesis
    by (simp add: generateAlerts_def emptyState_def uspsShipment_alerts deduplicateAlerts_def
          cleanupOutdatedAlerts_def keep title_consts Let_def)
qed

text \<open>
  C1 fails on the code: with the premium gate on, an overdue USPS shipment that has not been
  updated for more than 72 hours gets the overdue alert and the carrier-issue alert in one
  batch.  Both have the key (shipment, warning, "Shipment Delayed"); the dedup step compares
  candidates with the existing alerts only, so after the cycle from the empty state the
  alert set holds two alerts with that key, none dismissed.
\<close>

theorem cycle_duplicate_key:
  "map dedupKey (filter (\<lambda>a. \<not> dismissed a)
     (alerts (generateAlerts True defaultPreferences 1000000000 sampleRnd [uspsShipment]
        emptyState))) =
     [(Some ''s1'', ''warning'', ''Shipment Delayed''),
      (Some ''s1'', ''error'', ''Delivery Exception''),
      (Some ''s1'', ''warning'', ''Shipment Delayed'')] \<and>
   \<not> distinct (map dedupKey (filter (\<lambda>a. \<not> dismissed a)
     (alerts (generateAlerts True defaultPreferences 1000000000 sampleRnd [uspsShipment]
        emptyState))))"
proof -
  have sel: "shipmentId uspsShipment = Some ''s1''"
    by (simp add: uspsShipment_def sampleShipment_def)
  have k: "map dedupKey (filter (\<lambda>a. \<not> dismissed a)
     (alerts (generateAlerts True defaultPreferences 1000000000 sampleRnd [uspsShipment]
        emptyState))) =
     [(Some ''s1'', ''warning'', ''Shipment Delayed''),
      (Some ''s1'', ''error'', ''Delivery Exception''),
      (Some ''s1'', ''warning'', ''Shipment Delayed'')]"
    by (simp add: usps_cycle uspsShipment_alerts dedupKey_def createAlert_sel sel
          type_consts title_consts)
  show ?thesis unfolding k by simp
qed

text \<open>
  What the dedup step does give: when the candidates of the batch that are not dismissed
  have pairwise different keys, and so have the existing alerts that are not dismissed,
  then so has the set after admission and cleanup.
\<close>

lemma pipeline_keeps_unique_keys:
  assumes ex: "distinct (map dedupKey (filter (\<lambda>a. \<not> dismissed a) existing))"
    and new: "distinct (map dedupKey (filter (\<lambda>a. \<not> dismissed a) newAlerts))"
  shows "distinct (map dedupKey (filter (\<lambda>a. \<not> dismissed a)
           (cleanupOutdatedAlerts now (deduplicateAlerts newAlerts existing @ existing)
              shipments)))"
proof -
  let ?nd = "\<lambda>a. \<not> dismissed a"
  let ?D = "deduplicateAlerts newAlerts existing"
  have D: "distinct (map dedupKey (filter ?nd ?D))"
  proof -
    obtain Q where "?D = filter Q newAlerts"
      unfolding deduplicateAlerts_def by blast
    then have "filter ?nd ?D = filter Q (filter ?nd newAlerts)"
      by (simp add: conj_commute)
    moreover have "distinct (map dedupKey (filter Q (filter ?nd newAlerts)))"
      using new by (rule distinct_map_filter)
    ultimately show ?thesis by (simp only:)
  qed
  have disj: "dedupKey ` set (filter ?nd ?D) \<inter> dedupKey ` set (filter ?nd existing) = {}"
  proof (rule ccontr)
    assume "dedupKey ` set (filter ?nd ?D) \<inter> dedupKey ` set (filter ?nd existing) \<noteq> {}"
    then obtain k where "k \<in> dedupKey ` set (filter ?nd ?D)"
      and "k \<in> dedupKey ` set (filter ?nd existing)"
      by blast
    then obtain c e where c: "c \<in> set ?D" and e: "e \<in> set existing" "\<not> dismissed e"
      and k: "dedupKey c = dedupKey e"
      by (auto simp: image_iff)
    from c e(1) k have "dismissed e"
      by (simp add: dedup_member dedupKey_def)
    with e(2) show False by simp
  qed
  have "distinct (map dedupKey (filter ?nd (?D @ existing)))"
    using D ex disj by simp
  then have "distinct (map dedupKey (filter (keepAlert now shipments) (filter ?nd (?D @ existing))))"
    by (rule distinct_map_filter)
  moreover have "filter ?nd (cleanupOutdatedAlerts now (?D @ existing) shipments) =
      filter (keepAlert now shipments) (filter ?nd (?D @ existing))"
    unfolding cleanupOutdatedAlerts_def filter_filter by (simp add: conj_commute)
  ultimately show ?thesis by simp
qed

subsection \<open>Notification\<close>

lemma fold_send:
  "fold (\<lambda>a acc. sendNotificationEmail u k (f a) acc) xs sent0 =
     sent0 @ map (\<lambda>a. \<lparr>e_to = u, e_kind = k, e_data = f a\<rparr>) xs"
  by (induction xs arbitrary: sent0) (simp_all add: sendNotificationEmail_def)

lemma preferenceFilter_iff:
  "preferenceFilter prefs a \<longleftrightarrow>
     (type a = ''warning'' \<longrightarrow> delayAlerts prefs) \<and>
     (type a = ''success'' \<longrightarrow> deliveryAlerts prefs)"
  by (auto simp: preferenceFilter_def)

text \<open>
  C9, as the code has it: \<^verbatim>\<open>processAlertNotifications\<close> sends nothing when
  emailNotifications is off.  Otherwise it drops the warning alerts unless delayAlerts is on
  and the success alerts unless deliveryAlerts is on; it sends one mail of kind alert for
  each remaining alert of priority high, in order, with tracking number, status, message
  and title; and when at least one alert of another priority remains it sends exactly one
  mail of kind digest that carries the list of those alerts and their number.  When none
  remains no digest is sent.
\<close>

theorem notify_dispatch:
  "processAlertNotifications prefs as u sent0 =
     (if \<not> emailNotifications prefs then sent0
      else sent0 @
           map (\<lambda>a. \<lparr>e_to = u, e_kind = ''alert'',
                      e_data = AlertData \<lparr>p_trackingNumber = alert_trackingNumber a,
                        p_status = md_status (metadata a), p_message = message a,
                        p_title = title a\<rparr>\<rparr>)
             (filter (\<lambda>a. priority a = ''high'')
                (filter (\<lambda>a. (type a = ''warning'' \<longrightarrow> delayAlerts prefs) \<and>
                              (type a = ''success'' \<longrightarrow> deliveryAlerts prefs)) as)) @
           (let rest = filter (\<lambda>a. priority a \<noteq> ''high'')
                         (filter (\<lambda>a. (type a = ''warning'' \<longrightarrow> delayAlerts prefs) \<and>
                                       (type a = ''success'' \<longrightarrow> deliveryAlerts prefs)) as)
            in if rest = [] then []
               else [\<lparr>e_to = u, e_kind = ''digest'',
                       e_data = DigestData rest (length rest)\<rparr>]))"
proof -
  have pf: "preferenceFilter prefs =
      (\<lambda>a. (type a = ''warning'' \<longrightarrow> delayAlerts prefs) \<and>
           (type a = ''success'' \<longrightarrow> deliveryAlerts prefs))"
    by (rule ext) (rule preferenceFilter_iff)
  show ?thesis
  proof (cases "as = []")
    case True
    then show ?thesis by (simp add: processAlertNotifications_def)
  next
    case False
    then show ?thesis
      unfolding processAlertNotifications_def pf Let_def fold_send
      by (simp add: sendNotificationEmail_def alertPayloadOf_def)
  qed
qed

text \<open>
  Instances of C9.  A batch of three high-priority alerts (two warnings, one error), one
  medium info alert and one medium success alert: with delivery alerts off there are three
  alert mails and one digest with the info alert alone; with delay alerts off too, the two
  warnings go; with mail off nothing is sent; and the three high-priority alerts alone
  give no digest.
\<close>

theorem notify_dispatch_witness:
  "map e_kind (processAlertNotifications (defaultPreferences\<lparr>deliveryAlerts := False\<rparr>)
      (analyzeShipmentForAlerts True 1000000000 sampleRnd uspsShipment None @
       [ofdAlert 1000000000, deliveredAlert]) ''user@example.com'' []) =
     [''alert'', ''alert'', ''alert'', ''digest''] \<and>
   map e_data (filter (\<lambda>e. e_kind e = ''digest'')
     (processAlertNotifications (defaultPreferences\<lparr>deliveryAlerts := False\<rparr>)
      (analyzeShipmentForAlerts True 1000000000 sampleRnd uspsShipment None @
       [ofdAlert 1000000000, deliveredAlert]) ''user@example.com'' [])) =
     [DigestData [ofdAlert 1000000000] 1] \<and>
   map e_kind (processAlertNotifications
      (defaultPreferences\<lparr>deliveryAlerts := False, delayAlerts := False\<rparr>)
      (analyzeShipmentForAlerts True 1000000000 sampleRnd uspsShipment None @
       [ofdAlert 1000000000, deliveredAlert]) ''user@example.com'' []) =
     [''alert'', ''digest''] \<and>
   processAlertNotifications (defaultPreferences\<lparr>emailNotifications := False\<rparr>)
      (analyzeShipmentForAlerts True 1000000000 sampleRnd uspsShipment None @
       [ofdAlert 1000000000, deliveredAlert]) ''user@example.com'' [] = [] \<and>
   map e_kind (processAlertNotifications defaultPreferences
      (analyzeShipmentForAlerts True 1000000000 sampleRnd uspsShipment None)
      ''user@example.com'' []) = [''alert'', ''alert'', ''alert'']"
proof -
  let ?as = "analyzeShipmentForAlerts True 1000000000 sampleRnd uspsShipment None @
       [ofdAlert 1000000000, deliveredAlert]"
  have d: "type deliveredAlert = ''success''" "priority deliveredAlert = ''medium''"
    by (simp_all add: deliveredAlert_def createAlert_sel type_consts priority_consts)
  note ev = uspsShipment_alerts createAlert_sel ofdAlert_sel d defaultPreferences_def
    type_consts priority_consts
  have 1: "map e_kind (processAlertNotifications (defaultPreferences\<lparr>deliveryAlerts := False\<rparr>)
      ?as ''user@example.com'' []) = [''alert'', ''alert'', ''alert'', ''digest'']"
    using notify_dispatch [of "defaultPreferences\<lparr>deliveryAlerts := False\<rparr>" ?as
            "''user@example.com''" "[]"]
    by (simp add: ev)
  have 2: "map e_data (filter (\<lambda>e. e_kind e = ''digest'')
     (processAlertNotifications (defaultPreferences\<lparr>deliveryAlerts := False\<rparr>)
      ?as ''user@example.com'' [])) = [DigestData [ofdAlert 1000000000] 1]"
    unfolding notify_dispatch by (simp add: ev)
  have 3: "map e_kind (processAlertNotifications
      (defaultPreferences\<lparr>deliveryAlerts := False, delayAlerts := False\<rparr>)
      ?as ''user@example.com'' []) = [''alert'', ''digest'']"
    unfolding notify_dispatch by (simp add: ev)
  have 4: "processAlertNotifications (defaultPreferences\<lparr>emailNotifications := False\<rparr>)
      ?as ''user@example.com'' [] = []"
    unfolding notify_dispatch by (simp add: ev)
  have 5: "map e_kind (processAlertNotifications defaultPreferences
      (analyzeShipmentForAlerts True 1000000000 sampleRnd uspsShipment None)
      ''user@example.com'' []) = [''alert'', ''alert'', ''alert'']"
    unfolding notify_dispatch by (simp add: ev)
  from 1 2 3 4 5 show ?thesis by (intro conjI)
qed

text \<open>
  Against C9 as stated: mail is on and the batch holds three alerts, all of priority high;
  three alert mails go out and no digest, where the claim has exactly one digest.
\<close>

theorem notify_digest_counterexample:
  "emailNotifications defaultPreferences \<and>
   map e_kind (processAlertNotifications defaultPreferences
      (analyzeShipmentForAlerts True 1000000000 sampleRnd uspsShipment None)
      ''user@example.com'' []) = [''alert'', ''alert'', ''alert''] \<and>
   length (filter (\<lambda>e. e_kind e = ''digest'')
     (processAlertNotifications defaultPreferences
        (analyzeShipmentForAlerts True 1000000000 sampleRnd uspsShipment None)
        ''user@example.com'' [])) \<noteq> 1"
  by (simp add: processAlertNotifications_def Let_def fold_send sendNotificationEmail_def
        preferenceFilter_def uspsShipment_alerts createAlert_sel defaultPreferences_def
        type_consts priority_consts)

end
